theory Spec2Isabelle
  imports Main "HOL-Library.AList"
begin

section \<open>Strings and the regular expressions of the converter\<close>

text \<open>
  Strings are lists of characters, each one byte: the model covers the strings whose
  code units are below 256. The character class \<open>[a-zA-Z0-9_]\<close>, which is also
  what \<open>\w\<close> denotes in a JavaScript regular expression without the unicode flag
  (the \<open>i\<close> flag adds nothing to it), is written out.
\<close>

definition word_char :: "char \<Rightarrow> bool" where
  "word_char c \<longleftrightarrow>
     c \<in> set ''abcdefghijklmnopqrstuvwxyzABCDEFGHIJKLMNOPQRSTUVWXYZ0123456789_''"

text \<open>
  \<open>route.endpoint.match(/:[a-zA-Z0-9_]+/g)\<close>: all matches, left to right, each the colon
  with the longest run of word characters after it; the scan resumes after a match.
  JavaScript returns \<open>null\<close> when nothing matches, here the empty list (the source tests
  \<open>pathParamaters && pathParamaters.length > 0\<close>, which treats both alike).
\<close>

function pathParamaters :: "string \<Rightarrow> string list" where
  "pathParamaters [] = []"
| "pathParamaters (c # cs) =
     (if c = CHR '':'' \<and> takeWhile word_char cs \<noteq> []
      then (c # takeWhile word_char cs) # pathParamaters (dropWhile word_char cs)
      else pathParamaters cs)"
  by pat_completeness auto
termination
  by (relation "measure length") (auto simp: length_dropWhile_le le_imp_less_Suc)

text \<open>\<open>route.endpoint.replace(/:([a-zA-Z0-9_]+)/g, '{$1}')\<close>.\<close>

function replace_colon_parameters :: "string \<Rightarrow> string" where
  "replace_colon_parameters [] = []"
| "replace_colon_parameters (c # cs) =
     (if c = CHR '':'' \<and> takeWhile word_char cs \<noteq> []
      then CHR ''{'' # takeWhile word_char cs @
             CHR ''}'' # replace_colon_parameters (dropWhile word_char cs)
      else c # replace_colon_parameters cs)"
  by pat_completeness auto
termination
  by (relation "measure length") (auto simp: length_dropWhile_le le_imp_less_Suc)

text \<open>
  \<open>/{(\w+)}/gi\<close> at the head of a string: an opening brace, the longest non-empty run of
  word characters, and a closing brace right after the run. (A shorter run cannot match:
  it would be followed by a word character, not by the closing brace.)
\<close>

definition brace_parameter_here :: "string \<Rightarrow> bool" where
  "brace_parameter_here s =
     (case s of
        [] \<Rightarrow> False
      | c # cs \<Rightarrow>
          c = CHR ''{'' \<and> takeWhile word_char cs \<noteq> [] \<and>
          (case dropWhile word_char cs of [] \<Rightarrow> False | x # _ \<Rightarrow> x = CHR ''}''))"

text \<open>Whether \<open>/{(\w+)}/\<close> matches anywhere in a string.\<close>

primrec has_brace_parameter :: "string \<Rightarrow> bool" where
  "has_brace_parameter [] = False"
| "has_brace_parameter (c # cs) =
     (brace_parameter_here (c # cs) \<or> has_brace_parameter cs)"

text \<open>
  \<open>String.prototype.toLowerCase\<close>, on the letters that matter to a comparison with an
  ASCII literal: \<open>A\<close> to \<open>Z\<close> are mapped to \<open>a\<close> to \<open>z\<close>, every other character of a
  byte string is left as it is (no other character lowers to an ASCII one).
\<close>

definition lower_char :: "char \<Rightarrow> char" where
  "lower_char c =
     (case map_of (zip ''ABCDEFGHIJKLMNOPQRSTUVWXYZ'' ''abcdefghijklmnopqrstuvwxyz'') c of
        Some l \<Rightarrow> l
      | None \<Rightarrow> c)"

definition toLowerCase :: "string \<Rightarrow> string" where
  "toLowerCase s = map lower_char s"

text \<open>
  A JavaScript number that is an integer, \<open>NaN\<close> or infinite. \<open>Number i\<close> is the number
  that stands for the mathematical integer \<open>i\<close>: \<open>i\<close> itself below \<open>2^53\<close>, beyond that
  the nearest number with 53 significant bits, a tie going to the even one, and an
  infinity from \<open>2^1024\<close> on. The two zeros are one.
\<close>

datatype number = NaN | Finite int | Infinity | MinusInfinity

fun bit_length :: "nat \<Rightarrow> nat" where
  "bit_length n = (if n = 0 then 0 else Suc (bit_length (n div 2)))"

definition round_to_double :: "nat \<Rightarrow> nat" where
  "round_to_double n =
     (if n < 2 ^ 53 then n
      else (let shift = bit_length n - 53;
                q = n div 2 ^ shift;
                r = n mod 2 ^ shift
            in (if 2 ^ (shift - 1) < r \<or> (r = 2 ^ (shift - 1) \<and> odd q) then q + 1 else q) *
               2 ^ shift))"

definition Number :: "int \<Rightarrow> number" where
  "Number i =
     (let d = round_to_double (nat \<bar>i\<bar>)
      in if 2 ^ 1024 \<le> d then (if i < 0 then MinusInfinity else Infinity)
         else Finite (if i < 0 then - int d else int d))"

text \<open>
  \<open>parseInt(s, 10)\<close>: leading white space is skipped, one sign is read, then the longest
  run of decimal digits; no digit gives \<open>NaN\<close>. Whatever follows the digits is ignored.
  The result is the number for the integer that the digits denote. (The standard lets an
  engine read the digits after the twentieth as zeros; here the exact integer is rounded.)
\<close>

definition white_space :: "char \<Rightarrow> bool" where
  "white_space c \<longleftrightarrow> (of_char c :: nat) \<in> {9, 10, 11, 12, 13, 32, 160}"

definition digit_char :: "char \<Rightarrow> bool" where
  "digit_char c \<longleftrightarrow> 48 \<le> (of_char c :: nat) \<and> (of_char c :: nat) \<le> 57"

definition digit_value :: "char \<Rightarrow> int" where
  "digit_value c = int (of_char c) - 48"

primrec digits_value :: "int \<Rightarrow> string \<Rightarrow> int" where
  "digits_value acc [] = acc"
| "digits_value acc (c # cs) = digits_value (acc * 10 + digit_value c) cs"

definition parseInt :: "string \<Rightarrow> number" where
  "parseInt s =
     (let t = dropWhile white_space s;
          neg = (case t of [] \<Rightarrow> False | c # _ \<Rightarrow> c = CHR ''-'');
          u = (case t of [] \<Rightarrow> [] | c # r \<Rightarrow> if c = CHR ''-'' \<or> c = CHR ''+'' then r else t);
          ds = takeWhile digit_char u
      in if ds = [] then NaN
         else Number (if neg then - digits_value 0 ds else digits_value 0 ds))"

text \<open>The decimal numeral of a natural number.\<close>

fun decimal :: "nat \<Rightarrow> string" where
  "decimal n =
     (if n < 10 then [''0123456789'' ! n]
      else decimal (n div 10) @ [''0123456789'' ! (n mod 10)])"

text \<open>
  \<open>s.split(':')\<close> for a one-character separator: the pieces between the separators, in
  order; a string without the separator is its own single piece.
\<close>

primrec split_on :: "char \<Rightarrow> string \<Rightarrow> string list" where
  "split_on sep [] = [[]]"
| "split_on sep (c # cs) =
     (if c = sep then [] # split_on sep cs
      else (case split_on sep cs of
              [] \<Rightarrow> [[c]]
            | piece # pieces \<Rightarrow> (c # piece) # pieces))"

text \<open>\<open>xs[i]\<close> on an array: \<open>undefined\<close> (\<open>None\<close>) out of range.\<close>

definition at_index :: "'a list \<Rightarrow> nat \<Rightarrow> 'a option" where
  "at_index xs i = (if i < length xs then Some (xs ! i) else None)"

text \<open>
  \<open>a || b\<close> on strings that may be \<open>undefined\<close>: the left operand when it is truthy
  (defined and not empty), else the right one.
\<close>

definition or_else :: "string option \<Rightarrow> string \<Rightarrow> string" where
  "or_else a b = (case a of None \<Rightarrow> b | Some s \<Rightarrow> if s = [] then b else s)"

text \<open>
  Modelled from the spec: \<open>RemoveLeadingSlash\<close> of \<open>src/app/libs/utils.lib\<close>, which is
  not among the sources; the spec has the result as the string "minus leading slash".
\<close>

definition RemoveLeadingSlash :: "string \<Rightarrow> string" where
  "RemoveLeadingSlash str = (case str of [] \<Rightarrow> [] | c # cs \<Rightarrow> if c = CHR ''/'' then cs else str)"

section \<open>The internal model\<close>

text \<open>
  The records hold the fields the converter reads or writes. Field \<open>val\<close> is the source's
  \<open>value\<close> and \<open>http_method\<close> its \<open>method\<close>. \<open>endpointPrefix\<close> is declared a string; the
  converter can store \<open>undefined\<close> in it, which is \<open>None\<close> here.
\<close>

record header =
  key :: string
  val :: string

record routeResponse =
  statusCode :: int
  label :: string
  body :: string
  headers :: "header list"

record route =
  documentation :: string
  http_method :: string
  endpoint :: string
  responses :: "routeResponse list"

record environment =
  name :: string
  port :: number
  endpointPrefix :: "string option"
  https :: bool
  headers :: "header list"
  routes :: "route list"

section \<open>Swagger and OpenAPI documents\<close>

text \<open>
  A dereferenced document, with the fields of \<open>OpenAPIV2.Document\<close> and
  \<open>OpenAPIV3.Document\<close> the converter touches. A field that the declared types make
  optional is an \<open>option\<close>, \<open>None\<close> when it is absent: so are the \<open>responses\<close> of an
  operation, which \<open>OpenAPIV3.OperationObject\<close> leaves optional. An object is the list of
  its entries in the order \<open>Object.keys\<close> enumerates them. \<open>info_title\<close> and
  \<open>info_version\<close> are \<open>info.title\<close> and \<open>info.version\<close>; a server variable is stored with
  its \<open>default\<close>. In a path item the entries under keys that are not HTTP methods are
  never inspected.
\<close>

record headerObject =
  schema_type :: string
  example :: string

record responseObject =
  description :: "string option"
  content :: "(string \<times> unit) list option"
  headers :: "(string \<times> headerObject) list option"

record parameterObject =
  name :: string
  param_in :: string
  schema_type :: string
  required :: bool

record operationObject =
  summary :: "string option"
  description :: "string option"
  produces :: "string list option"
  responses :: "(string \<times> responseObject) list option"
  parameters :: "parameterObject list option"

record serverObject =
  url :: string
  variables :: "(string \<times> string) list option"

record document =
  swagger :: "string option"
  openapi :: "string option"
  host :: "string option"
  basePath :: "string option"
  info_title :: "string option"
  info_version :: "string option"
  servers :: "serverObject list option"
  paths :: "(string \<times> (string \<times> operationObject) list) list"

section \<open>Exceptions, notifications and collaborators\<close>

text \<open>
  An exception is a value: \<open>TypeError p\<close> is the runtime's error on using \<open>undefined\<close>
  as an object, \<open>p\<close> being the property that was read on it or, for \<open>Object.keys\<close>, the
  field that held it; \<open>Failure m\<close> is an error raised by a collaborator with message
  \<open>m\<close>. A function that can throw returns \<open>exn + 'a\<close>.
\<close>

datatype exn = TypeError string | Failure string

datatype severity = Warning | Error

text \<open>
  The texts handed to the toast and logger services; the wording of \<open>Errors\<close> is not
  among the sources, so a text is named by its constant and the exception it quotes.
\<close>

datatype notice =
    IMPORT_WRONG_VERSION
  | IMPORT_ERROR exn
  | EXPORT_ERROR exn
  | Starting_import string
  | Starting_export
  | Error_while_importing exn
  | Error_while_exporting exn

text \<open>
  What a call does besides returning: the toasts and log lines, and a promise that is
  rejected with no handler attached.
\<close>

datatype effect =
    addToast severity notice
  | logger_info notice
  | logger_error notice
  | unhandledRejection exn

text \<open>
  What the converter is given by its collaborators: the defaults built by
  \<open>SchemasBuilderService\<close> (\<open>buildEnvironment(false, false)\<close>, \<open>buildRoute(false)\<close>,
  \<open>buildRouteResponse()\<close>), the codes of \<open>statusCodes\<close>, the \<open>path\<close> that Node's
  \<open>url.parse\<close> reads off a URL, \<open>GetRouteResponseContentType\<close> (the empty string when
  there is none), the exception that the promise of \<open>SwaggerParser.validate\<close> is rejected
  with (\<open>None\<close> when it is fulfilled), the outcome of \<open>JSON.stringify\<close>, and the exponent
  notation in which a number of 22 digits or more is printed.
\<close>

record collaborators =
  buildEnvironment :: environment
  buildRoute :: route
  buildRouteResponse :: routeResponse
  statusCodes :: "int list"
  urlParse_path :: "string \<Rightarrow> string"
  GetRouteResponseContentType :: "environment \<Rightarrow> routeResponse \<Rightarrow> string"
  validate :: "document \<Rightarrow> exn option"
  stringify :: "document \<Rightarrow> exn + string"
  exponential :: "int \<Rightarrow> string"

text \<open>
  \<open>Number.prototype.toString\<close>, also what a template literal prints: the decimal numeral
  of an integer below \<open>10^21\<close>.
\<close>

definition toString :: "collaborators \<Rightarrow> number \<Rightarrow> string" where
  "toString cs x =
     (case x of
        NaN \<Rightarrow> ''NaN''
      | Infinity \<Rightarrow> ''Infinity''
      | MinusInfinity \<Rightarrow> ''-Infinity''
      | Finite i \<Rightarrow>
          if \<bar>i\<bar> < 10 ^ 21
          then (if i < 0 then CHR ''-'' # decimal (nat (- i)) else decimal (nat i))
          else exponential cs i)"

text \<open>
  Modelled from the spec: \<open>buildHeader\<close> of \<open>SchemasBuilderService\<close>, which is not among
  the sources; a Header is a key and a value.
\<close>

definition buildHeader :: "string \<Rightarrow> string \<Rightarrow> header" where
  "buildHeader k v = \<lparr>key = k, val = v\<rparr>"

text \<open>
  Modelled from the spec: \<open>methods\<close> of \<open>src/app/types/route.type\<close>, which is not among
  the sources; the spec lists the recognised methods.
\<close>

definition methods :: "string list" where
  "methods = [''get'', ''post'', ''put'', ''patch'', ''delete'', ''head'', ''options'']"

datatype parametersTypes = PATH_PARAMETERS | SERVER_VARIABLES

datatype specificationVersions = SWAGGER | OPENAPI_V3

section \<open>Import\<close>

text \<open>
  The names that every object inherits from \<open>Object.prototype\<close> and that \<open>\w+\<close> can
  match: a property read finds them in an object that has no entry of its own for them.
\<close>

definition inheritedProperties :: "string list" where
  "inheritedProperties =
     [''constructor'', ''hasOwnProperty'', ''isPrototypeOf'', ''propertyIsEnumerable'',
      ''toLocaleString'', ''toString'', ''valueOf'', ''__proto__'', ''__defineGetter__'',
      ''__defineSetter__'', ''__lookupGetter__'', ''__lookupSetter__'']"

text \<open>
  The callback of \<open>parametersReplace\<close>: what one match \<open>{replaceValue}\<close> is replaced
  by. For server variables it reads \<open>parameters[replaceValue].default\<close>. That throws
  when \<open>parameters\<close> is \<open>undefined\<close>, and when it has no such variable and inherits
  no property of that name; on an inherited property \<open>default\<close> is \<open>undefined\<close>, which
  \<open>replace\<close> prints as the word \<open>undefined\<close>.
\<close>

definition replacement ::
  "parametersTypes \<Rightarrow> (string \<times> string) list option \<Rightarrow> string \<Rightarrow> exn + string" where
  "replacement parametersType params replaceValue =
     (case parametersType of
        PATH_PARAMETERS \<Rightarrow> Inr (CHR '':'' # replaceValue)
      | SERVER_VARIABLES \<Rightarrow>
          (case params of
             None \<Rightarrow> Inl (TypeError replaceValue)
           | Some vars \<Rightarrow>
               (case map_of vars replaceValue of
                  Some d \<Rightarrow> Inr d
                | None \<Rightarrow>
                    if replaceValue \<in> set inheritedProperties then Inr ''undefined''
                    else Inl (TypeError ''default''))))"

text \<open>
  \<open>str.replace(/{(\w+)}/gi, callback)\<close>: the matches are replaced left to right, the
  scan resumes after each match, and the first callback that throws ends the call.
\<close>

function parametersReplace ::
  "string \<Rightarrow> parametersTypes \<Rightarrow> (string \<times> string) list option \<Rightarrow> exn + string" where
  "parametersReplace [] parametersType params = Inr []"
| "parametersReplace (c # cs) parametersType params =
     (if brace_parameter_here (c # cs)
      then (case replacement parametersType params (takeWhile word_char cs) of
              Inl e \<Rightarrow> Inl e
            | Inr r \<Rightarrow>
                (case parametersReplace (tl (dropWhile word_char cs)) parametersType params of
                   Inl e \<Rightarrow> Inl e
                 | Inr rest \<Rightarrow> Inr (r @ rest)))
      else (case parametersReplace cs parametersType params of
              Inl e \<Rightarrow> Inl e
            | Inr rest \<Rightarrow> Inr (c # rest)))"
  by pat_completeness auto
termination
  by (relation "measure (\<lambda>(s, _, _). length s)")
    (auto simp: le_imp_less_Suc length_dropWhile_le le_trans [OF diff_le_self])

definition buildResponseHeaders ::
  "string list option \<Rightarrow> (string \<times> headerObject) list option \<Rightarrow> header list" where
  "buildResponseHeaders contentTypes responseHeaders =
     (let routeContentTypeHeader0 = buildHeader ''Content-Type'' ''application/json'';
          routeContentTypeHeader =
            (case contentTypes of
               None \<Rightarrow> routeContentTypeHeader0
             | Some [] \<Rightarrow> routeContentTypeHeader0
             | Some (first # others) \<Rightarrow>
                 if ''application/json'' \<notin> set (first # others)
                 then routeContentTypeHeader0\<lparr>val := first\<rparr>
                 else routeContentTypeHeader0)
      in case responseHeaders of
           Some hs \<Rightarrow>
             routeContentTypeHeader # map (\<lambda>header. buildHeader header []) (map fst hs)
         | None \<Rightarrow> [routeContentTypeHeader])"

text \<open>The content types of one response: \<open>produces\<close> (v2) or the keys of \<open>content\<close> (v3).\<close>

definition contentTypeHeaders ::
  "specificationVersions \<Rightarrow> operationObject \<Rightarrow> responseObject \<Rightarrow> string list option" where
  "contentTypeHeaders version parsedRoute routeResponse =
     (case version of
        SWAGGER \<Rightarrow> produces parsedRoute
      | OPENAPI_V3 \<Rightarrow>
          (case content routeResponse of
             Some c \<Rightarrow> Some (map fst c)
           | None \<Rightarrow> Some []))"

text \<open>
  The test \<open>statusCodes.find((statusCode) => statusCode.code === parseInt(responseStatus, 10))\<close>:
  the code found, or \<open>undefined\<close>. \<open>NaN\<close> and the infinities equal no code.
\<close>

definition findStatusCode :: "collaborators \<Rightarrow> string \<Rightarrow> int option" where
  "findStatusCode cs responseStatus =
     (case parseInt responseStatus of
        Finite parsed \<Rightarrow> find (\<lambda>code. code = parsed) (statusCodes cs)
      | _ \<Rightarrow> None)"

text \<open>The response pushed for a key that passed the test; \<open>code\<close> is what \<open>parseInt\<close> read.\<close>

definition pushedResponse ::
  "collaborators \<Rightarrow> specificationVersions \<Rightarrow> operationObject \<Rightarrow> int \<Rightarrow> responseObject \<Rightarrow>
   routeResponse" where
  "pushedResponse cs version parsedRoute code routeResponse =
     (buildRouteResponse cs)
       \<lparr>body := [],
        statusCode := code,
        label := or_else (responseObject.description routeResponse) [],
        routeResponse.headers :=
          buildResponseHeaders
            (contentTypeHeaders version parsedRoute routeResponse)
            (responseObject.headers routeResponse)\<rparr>"

text \<open>
  The loop over \<open>Object.keys(parsedRoute.responses)\<close>, with the array \<open>routeResponses\<close>
  it pushes to.
\<close>

fun routeResponses_loop ::
  "collaborators \<Rightarrow> specificationVersions \<Rightarrow> operationObject \<Rightarrow>
   (string \<times> responseObject) list \<Rightarrow> routeResponse list \<Rightarrow> routeResponse list" where
  "routeResponses_loop cs version parsedRoute [] pushed = pushed"
| "routeResponses_loop cs version parsedRoute ((responseStatus, routeResponse) # rest) pushed =
     routeResponses_loop cs version parsedRoute rest
       (case findStatusCode cs responseStatus of
          None \<Rightarrow> pushed
        | Some code \<Rightarrow> pushed @ [pushedResponse cs version parsedRoute code routeResponse])"

text \<open>
  The responses of a route after the loop over the declared ones: the loop's, or the
  one default response.
\<close>

definition routeResponses ::
  "collaborators \<Rightarrow> specificationVersions \<Rightarrow> operationObject \<Rightarrow>
   (string \<times> responseObject) list \<Rightarrow> routeResponse list" where
  "routeResponses cs version parsedRoute declared =
     (let collected = routeResponses_loop cs version parsedRoute declared []
      in if collected = []
         then [(buildRouteResponse cs)
                 \<lparr>routeResponse.headers := [buildHeader ''Content-Type'' ''application/json'']\<rparr>]
         else collected)"

text \<open>
  The body of the test \<open>methods.includes(routeMethod)\<close>: the route built for one
  operation. \<open>Object.keys(parsedRoute.responses)\<close> comes first and throws when the
  operation has no \<open>responses\<close>.
\<close>

definition newRoute ::
  "collaborators \<Rightarrow> specificationVersions \<Rightarrow> string \<Rightarrow> string \<Rightarrow> operationObject \<Rightarrow>
   exn + route" where
  "newRoute cs version routePath routeMethod parsedRoute =
     (case operationObject.responses parsedRoute of
        None \<Rightarrow> Inl (TypeError ''responses'')
      | Some declared \<Rightarrow>
          (let rs = routeResponses cs version parsedRoute declared
           in case parametersReplace routePath PATH_PARAMETERS None of
                Inl e \<Rightarrow> Inl e
              | Inr replaced \<Rightarrow>
                  Inr ((buildRoute cs)
                         \<lparr>documentation :=
                            or_else (summary parsedRoute)
                              (or_else (operationObject.description parsedRoute) []),
                          http_method := routeMethod,
                          endpoint := RemoveLeadingSlash replaced,
                          route.responses := rs\<rparr>)))"

text \<open>The loop over the keys of one path item, pushing to \<open>routes\<close>.\<close>

fun methods_loop ::
  "collaborators \<Rightarrow> specificationVersions \<Rightarrow> string \<Rightarrow> (string \<times> operationObject) list \<Rightarrow>
   route list \<Rightarrow> exn + route list" where
  "methods_loop cs version routePath [] pushed = Inr pushed"
| "methods_loop cs version routePath ((routeMethod, parsedRoute) # rest) pushed =
     (if routeMethod \<in> set methods
      then (case newRoute cs version routePath routeMethod parsedRoute of
              Inl e \<Rightarrow> Inl e
            | Inr r \<Rightarrow> methods_loop cs version routePath rest (pushed @ [r]))
      else methods_loop cs version routePath rest pushed)"

text \<open>The loop over \<open>Object.keys(parsedAPI.paths)\<close>.\<close>

fun paths_loop ::
  "collaborators \<Rightarrow> specificationVersions \<Rightarrow>
   (string \<times> (string \<times> operationObject) list) list \<Rightarrow> route list \<Rightarrow> exn + route list" where
  "paths_loop cs version [] pushed = Inr pushed"
| "paths_loop cs version ((routePath, pathItem) # rest) pushed =
     (case methods_loop cs version routePath pathItem pushed of
        Inl e \<Rightarrow> Inl e
      | Inr pushed' \<Rightarrow> paths_loop cs version rest pushed')"

definition createRoutes ::
  "collaborators \<Rightarrow> document \<Rightarrow> specificationVersions \<Rightarrow> exn + route list" where
  "createRoutes cs parsedAPI version = paths_loop cs version (paths parsedAPI) []"

text \<open>
  The port of \<open>convertFromSwagger\<close>:
  \<open>parsedAPI.host && parseInt(parsedAPI.host.split(':')[1], 10) || newEnvironment.port\<close>.
  An absent or empty host, \<open>NaN\<close> and \<open>0\<close> are falsy and give the default;
  \<open>parseInt(undefined, 10)\<close> reads the string \<open>undefined\<close>.
\<close>

definition swaggerPort :: "string option \<Rightarrow> number \<Rightarrow> number" where
  "swaggerPort parsedHost defaultPort =
     (case parsedHost of
        None \<Rightarrow> defaultPort
      | Some h \<Rightarrow>
          if h = [] then defaultPort
          else (let parsed =
                      parseInt
                        (case at_index (split_on CHR '':'' h) 1 of
                           None \<Rightarrow> ''undefined''
                         | Some segment \<Rightarrow> segment)
                in if parsed = NaN \<or> parsed = Finite 0 then defaultPort else parsed))"

definition convertFromSwagger :: "collaborators \<Rightarrow> document \<Rightarrow> exn + environment" where
  "convertFromSwagger cs parsedAPI =
     (let env0 = buildEnvironment cs;
          env1 = env0\<lparr>port := swaggerPort (host parsedAPI) (port env0)\<rparr>;
          env2 =
            (case basePath parsedAPI of
               None \<Rightarrow> env1
             | Some b \<Rightarrow>
                 if b = [] then env1
                 else env1\<lparr>endpointPrefix := Some (RemoveLeadingSlash b)\<rparr>);
          env3 = env2\<lparr>environment.name := or_else (info_title parsedAPI) ''Swagger import''\<rparr>
      in case createRoutes cs parsedAPI SWAGGER of
           Inl e \<Rightarrow> Inl e
         | Inr rs \<Rightarrow> Inr (env3\<lparr>routes := rs\<rparr>))"

text \<open>
  The value of
  \<open>server && server[0] && server[0].url && RemoveLeadingSlash(urlParse(...).path)\<close>:
  the first falsy operand, or the last one. \<open>undefined\<close> is \<open>None\<close>.
\<close>

definition serverPrefix ::
  "collaborators \<Rightarrow> serverObject list option \<Rightarrow> exn + string option" where
  "serverPrefix cs server =
     (case server of
        None \<Rightarrow> Inr None
      | Some entries \<Rightarrow>
          (case at_index entries 0 of
             None \<Rightarrow> Inr None
           | Some server0 \<Rightarrow>
               if url server0 = [] then Inr (Some [])
               else (case parametersReplace (url server0) SERVER_VARIABLES
                            (variables server0) of
                       Inl e \<Rightarrow> Inl e
                     | Inr replaced \<Rightarrow>
                         Inr (Some (RemoveLeadingSlash (urlParse_path cs replaced))))))"

definition convertFromOpenAPIV3 :: "collaborators \<Rightarrow> document \<Rightarrow> exn + environment" where
  "convertFromOpenAPIV3 cs parsedAPI =
     (let env0 = buildEnvironment cs
      in case serverPrefix cs (servers parsedAPI) of
           Inl e \<Rightarrow> Inl e
         | Inr prefix \<Rightarrow>
             (let env1 = env0\<lparr>endpointPrefix := prefix\<rparr>;
                  env2 = env1\<lparr>environment.name := or_else (info_title parsedAPI) ''OpenAPI import''\<rparr>
              in case createRoutes cs parsedAPI OPENAPI_V3 of
                   Inl e \<Rightarrow> Inl e
                 | Inr rs \<Rightarrow> Inr (env2\<lparr>routes := rs\<rparr>)))"

definition isSwagger :: "document \<Rightarrow> bool" where
  "isSwagger parsedAPI \<longleftrightarrow> swagger parsedAPI \<noteq> None"

definition isOpenAPIV3 :: "document \<Rightarrow> bool" where
  "isOpenAPIV3 parsedAPI \<longleftrightarrow>
     (case openapi parsedAPI of None \<Rightarrow> False | Some v \<Rightarrow> take 2 v = ''3.'')"

text \<open>
  \<open>import\<close>. The argument \<open>dereferenced\<close> is the outcome of awaiting
  \<open>SwaggerParser.dereference(filePath)\<close>: the parsed document, or the exception it was
  rejected with. The result is what the caller gets, \<open>Inl\<close> an exception that leaves the
  function and \<open>Inr None\<close> the result \<open>undefined\<close>, with the effects in their order.
\<close>

definition import_body ::
  "collaborators \<Rightarrow> exn + document \<Rightarrow> (exn + environment option) \<times> effect list" where
  "import_body cs dereferenced =
     (case dereferenced of
        Inl e \<Rightarrow> (Inl e, [])
      | Inr parsedAPI \<Rightarrow>
          if isSwagger parsedAPI
          then (case convertFromSwagger cs parsedAPI of
                  Inl e \<Rightarrow> (Inl e, [])
                | Inr env \<Rightarrow> (Inr (Some env), []))
          else if isOpenAPIV3 parsedAPI
          then (case convertFromOpenAPIV3 cs parsedAPI of
                  Inl e \<Rightarrow> (Inl e, [])
                | Inr env \<Rightarrow> (Inr (Some env), []))
          else (Inr None, [addToast Warning IMPORT_WRONG_VERSION]))"

definition import ::
  "collaborators \<Rightarrow> string \<Rightarrow> exn + document \<Rightarrow> (exn + environment option) \<times> effect list" where
  "import cs filePath dereferenced =
     (case import_body cs dereferenced of
        (Inr result, effects) \<Rightarrow> (Inr result, logger_info (Starting_import filePath) # effects)
      | (Inl e, effects) \<Rightarrow>
          (Inr None,
           logger_info (Starting_import filePath) # effects @
             [addToast Error (IMPORT_ERROR e), logger_error (Error_while_importing e)]))"

section \<open>Export\<close>

text \<open>
  An object is the list of its own entries in the order in which JavaScript enumerates
  them: first the keys that are array indices (the numerals of the integers from 0 to
  \<open>2^32 - 2\<close>), in ascending order, then the other keys in the order in which they were
  first assigned. \<open>object_set\<close> is the assignment \<open>obj[k] = v\<close> of an object to a
  key: it overwrites the entry of a key that is there and puts a new key at its place;
  assigning to \<open>__proto__\<close> sets the prototype and makes no entry.
\<close>

definition array_index :: "string \<Rightarrow> nat option" where
  "array_index k =
     (if k \<noteq> [] \<and> list_all digit_char k \<and> (k = ''0'' \<or> take 1 k \<noteq> ''0'') \<and>
         digits_value 0 k < 2 ^ 32 - 1
      then Some (nat (digits_value 0 k))
      else None)"

primrec insert_index :: "nat \<Rightarrow> string \<Rightarrow> 'v \<Rightarrow> (string \<times> 'v) list \<Rightarrow> (string \<times> 'v) list" where
  "insert_index i k v [] = [(k, v)]"
| "insert_index i k v (entry # rest) =
     (case array_index (fst entry) of
        Some j \<Rightarrow> if j < i then entry # insert_index i k v rest else (k, v) # entry # rest
      | None \<Rightarrow> (k, v) # entry # rest)"

definition object_set :: "string \<Rightarrow> 'v \<Rightarrow> (string \<times> 'v) list \<Rightarrow> (string \<times> 'v) list" where
  "object_set k v obj =
     (if k = ''__proto__'' then obj
      else if map_of obj k \<noteq> None then AList.update k v obj
      else (case array_index k of
              Some i \<Rightarrow> insert_index i k v obj
            | None \<Rightarrow> obj @ [(k, v)]))"

text \<open>The path key of a route, the variable \<open>endpoint\<close> of \<open>convertToOpenAPIV3\<close>.\<close>

definition exportEndpoint :: "string \<Rightarrow> string" where
  "exportEndpoint routeEndpoint =
     (if pathParamaters routeEndpoint \<noteq> []
      then CHR ''/'' # replace_colon_parameters routeEndpoint
      else CHR ''/'' # routeEndpoint)"

text \<open>
  The \<open>headers\<close> of an exported response: the reduction over the two header lists,
  \<open>headersReducer\<close> being its callback.
\<close>

definition headersReducer ::
  "header \<Rightarrow> (string \<times> headerObject) list \<Rightarrow> (string \<times> headerObject) list" where
  "headersReducer header acc =
     (if toLowerCase (key header) \<noteq> ''content-type''
      then object_set (key header)
             \<lparr>headerObject.schema_type = ''string'', example = val header\<rparr> acc
      else acc)"

definition exportHeaders :: "header list \<Rightarrow> (string \<times> headerObject) list" where
  "exportHeaders hs = fold headersReducer hs []"

definition exportResponse ::
  "collaborators \<Rightarrow> environment \<Rightarrow> routeResponse \<Rightarrow> responseObject" where
  "exportResponse cs env routeResponse =
     (let responseContentType = GetRouteResponseContentType cs env routeResponse
      in \<lparr>responseObject.description = Some (label routeResponse),
          content = Some (if responseContentType \<noteq> [] then [(responseContentType, ())] else []),
          responseObject.headers =
            Some (exportHeaders (environment.headers env @ routeResponse.headers routeResponse))\<rparr>)"

text \<open>
  The \<open>responses\<close> of an exported operation: the reduction over the responses of the
  route, \<open>responsesReducer\<close> being its callback; the key is
  \<open>routeResponse.statusCode.toString()\<close>.
\<close>

definition responsesReducer ::
  "collaborators \<Rightarrow> environment \<Rightarrow> routeResponse \<Rightarrow> (string \<times> responseObject) list \<Rightarrow>
   (string \<times> responseObject) list" where
  "responsesReducer cs env routeResponse acc =
     object_set (toString cs (Finite (statusCode routeResponse)))
       (exportResponse cs env routeResponse) acc"

definition exportResponses ::
  "collaborators \<Rightarrow> environment \<Rightarrow> routeResponse list \<Rightarrow> (string \<times> responseObject) list" where
  "exportResponses cs env rs = fold (responsesReducer cs env) rs []"

text \<open>
  The \<open>parameters\<close> array: the reduction over the matches, each pushing one entry named
  by the match without its colon (\<open>parameter.slice(1, parameter.length)\<close>).
\<close>

definition exportParameters :: "string list \<Rightarrow> parameterObject list" where
  "exportParameters matches =
     fold (\<lambda>parameter acc.
             acc @ [\<lparr>name = drop 1 parameter, param_in = ''path'',
                     schema_type = ''string'', required = True\<rparr>])
       matches []"

definition exportOperation :: "collaborators \<Rightarrow> environment \<Rightarrow> route \<Rightarrow> operationObject" where
  "exportOperation cs env r =
     \<lparr>summary = None,
      operationObject.description = Some (documentation r),
      produces = None,
      operationObject.responses = Some (exportResponses cs env (route.responses r)),
      parameters =
        (if pathParamaters (endpoint r) \<noteq> []
         then Some (exportParameters (pathParamaters (endpoint r)))
         else None)\<rparr>"

text \<open>
  The \<open>paths\<close> object: the reduction over the routes, \<open>pathsReducer\<close> being its
  callback. A route is stored under its path key and its method, in the entry of a path
  key that is already there or in a new one. A path key starts with a slash and a method
  is one of the names of the type \<open>Method\<close>: neither is an array index or \<open>__proto__\<close>,
  so that a new key comes last, as \<open>AList.update\<close> puts it.
\<close>

definition pathsReducer ::
  "collaborators \<Rightarrow> environment \<Rightarrow> route \<Rightarrow> (string \<times> (string \<times> operationObject) list) list \<Rightarrow>
   (string \<times> (string \<times> operationObject) list) list" where
  "pathsReducer cs env r acc =
     (let pathKey = exportEndpoint (endpoint r);
          pathItem = (case map_of acc pathKey of None \<Rightarrow> [] | Some item \<Rightarrow> item)
      in AList.update pathKey
           (AList.update (http_method r) (exportOperation cs env r) pathItem) acc)"

definition exportPaths ::
  "collaborators \<Rightarrow> environment \<Rightarrow> (string \<times> (string \<times> operationObject) list) list" where
  "exportPaths cs env = fold (pathsReducer cs env) (routes env) []"

text \<open>
  The object \<open>openAPIEnvironment\<close>. In the server URL an \<open>undefined\<close> prefix prints as
  the word \<open>undefined\<close>, as a template literal does.
\<close>

definition openAPIEnvironment :: "collaborators \<Rightarrow> environment \<Rightarrow> document" where
  "openAPIEnvironment cs env =
     \<lparr>swagger = None,
      openapi = Some ''3.0.0'',
      host = None,
      basePath = None,
      info_title = Some (environment.name env),
      info_version = Some ''1.0.0'',
      servers =
        Some [\<lparr>url =
                 (if https env then ''https'' else ''http'') @ ''://localhost:'' @
                 toString cs (port env) @ ''/'' @
                 (case endpointPrefix env of None \<Rightarrow> ''undefined'' | Some p \<Rightarrow> p),
               variables = None\<rparr>],
      paths = exportPaths cs env\<rparr>"

text \<open>
  \<open>convertToOpenAPIV3\<close>: the result of \<open>JSON.stringify\<close>, or its exception, and the
  effects that come after the call has ended. \<open>SwaggerParser.validate\<close> returns a promise
  and the source does not await it: the \<open>try\<close> around the call catches nothing and its
  \<open>logger.error\<close> is never reached, so that a rejection of the promise stays unhandled.
\<close>

definition convertToOpenAPIV3 ::
  "collaborators \<Rightarrow> environment \<Rightarrow> (exn + string) \<times> effect list" where
  "convertToOpenAPIV3 cs env =
     (let doc = openAPIEnvironment cs env
      in (stringify cs doc,
          (case validate cs doc of
             Some e \<Rightarrow> [unhandledRejection e]
           | None \<Rightarrow> [])))"

text \<open>\<open>export\<close>, with the result and the effects as for \<open>import\<close>.\<close>

definition export ::
  "collaborators \<Rightarrow> environment \<Rightarrow> (exn + string option) \<times> effect list" where
  "export cs env =
     (case convertToOpenAPIV3 cs env of
        (Inr result, later) \<Rightarrow> (Inr (Some result), logger_info Starting_export # later)
      | (Inl e, later) \<Rightarrow>
          (Inr None,
           logger_info Starting_export #
             [addToast Error (EXPORT_ERROR e), logger_error (Error_while_exporting e)] @
             later))"

section \<open>Auxiliary definitions\<close>

text \<open>
  Whether every operation that \<open>createRoutes\<close> reads, the ones under a key of
  \<open>methods\<close>, has its \<open>responses\<close>.
\<close>

definition declaresResponses :: "document \<Rightarrow> bool" where
  "declaresResponses parsedAPI =
     list_all
       (\<lambda>(routePath, pathItem).
          list_all
            (\<lambda>(routeMethod, parsedRoute).
               routeMethod \<in> set methods \<longrightarrow> operationObject.responses parsedRoute \<noteq> None)
            pathItem)
       (paths parsedAPI)"

text \<open>
  The routes that \<open>createRoutes\<close> pushes for one path item whose operations have
  their \<open>responses\<close>: one for each entry whose key is in \<open>methods\<close>, in order.
\<close>

definition routesOfItem ::
  "collaborators \<Rightarrow> specificationVersions \<Rightarrow> string \<Rightarrow> (string \<times> operationObject) list \<Rightarrow>
   route list" where
  "routesOfItem cs version routePath pathItem =
     map (\<lambda>(routeMethod, parsedRoute).
            projr (newRoute cs version routePath routeMethod parsedRoute))
       (filter (\<lambda>(routeMethod, parsedRoute). routeMethod \<in> set methods) pathItem)"

text \<open>
  The responses that the loop keeps of the declared ones: for each key that passes the
  status test, in order, the response pushed for it.
\<close>

definition keptResponses ::
  "collaborators \<Rightarrow> specificationVersions \<Rightarrow> operationObject \<Rightarrow>
   (string \<times> responseObject) list \<Rightarrow> routeResponse list" where
  "keptResponses cs version parsedRoute declared =
     List.map_filter
       (\<lambda>(responseStatus, r).
          map_option (\<lambda>code. pushedResponse cs version parsedRoute code r)
            (findStatusCode cs responseStatus))
       declared"

text \<open>The one response of a route of which no declared response is kept.\<close>

definition defaultResponse :: "collaborators \<Rightarrow> routeResponse" where
  "defaultResponse cs =
     (buildRouteResponse cs)
       \<lparr>routeResponse.headers := [\<lparr>key = ''Content-Type'', val = ''application/json''\<rparr>]\<rparr>"

text \<open>The operation that a \<open>paths\<close> object holds at a path key and a method, if any.\<close>

definition operationAt ::
  "(string \<times> (string \<times> operationObject) list) list \<Rightarrow> string \<Rightarrow> string \<Rightarrow>
   operationObject option" where
  "operationAt ps pathKey m =
     (case map_of ps pathKey of None \<Rightarrow> None | Some pathItem \<Rightarrow> map_of pathItem m)"

text \<open>
  Whether \<open>headersReducer\<close> makes an entry for a header, and the entry it makes.
\<close>

definition exportedHeader :: "header \<Rightarrow> bool" where
  "exportedHeader h \<longleftrightarrow> toLowerCase (key h) \<noteq> ''content-type'' \<and> key h \<noteq> ''__proto__''"

definition headerEntry :: "header \<Rightarrow> string \<times> headerObject" where
  "headerEntry h = (key h, \<lparr>headerObject.schema_type = ''string'', example = val h\<rparr>)"

section \<open>Example inputs\<close>

text \<open>Collaborators with the defaults of a new environment, and a small document.\<close>

definition example_collaborators :: collaborators where
  "example_collaborators =
     \<lparr>buildEnvironment =
        \<lparr>environment.name = ''New environment'', port = Finite 3000,
         endpointPrefix = Some [], https = False, environment.headers = [], routes = []\<rparr>,
      buildRoute =
        \<lparr>documentation = [], http_method = ''get'', endpoint = [], route.responses = []\<rparr>,
      buildRouteResponse =
        \<lparr>statusCode = 200, label = [], body = ''{}'', routeResponse.headers = []\<rparr>,
      statusCodes = [200, 201, 204, 400, 404, 500],
      urlParse_path = (\<lambda>u. u),
      GetRouteResponseContentType = (\<lambda>env r. []),
      validate = (\<lambda>d. None),
      stringify = (\<lambda>d. Inr []),
      exponential = (\<lambda>i. [])\<rparr>"

definition example_response :: responseObject where
  "example_response =
     \<lparr>responseObject.description = Some ''A user'', content = None,
      responseObject.headers = None\<rparr>"

definition example_operation :: "(string \<times> responseObject) list \<Rightarrow> operationObject" where
  "example_operation declared =
     \<lparr>summary = Some ''Read a user'', operationObject.description = None, produces = None,
      operationObject.responses = Some declared, parameters = None\<rparr>"

definition example_document ::
  "(string \<times> (string \<times> operationObject) list) list \<Rightarrow> document" where
  "example_document ps =
     \<lparr>swagger = None, openapi = Some ''3.0.1'', host = None, basePath = None,
      info_title = Some ''Users'', info_version = Some ''1.0.0'', servers = None, paths = ps\<rparr>"

definition example_route :: "string \<Rightarrow> route" where
  "example_route e =
     \<lparr>documentation = [], http_method = ''get'', endpoint = e, route.responses = []\<rparr>"

text \<open>
  A validator for the examples: it refuses a document with an operation whose
  \<open>parameters\<close> array has two equal entries, as the schema of OpenAPI 3.0 does
  (\<open>uniqueItems\<close>), and accepts every other document.
\<close>

definition example_validate :: "document \<Rightarrow> exn option" where
  "example_validate doc =
     (if list_all
           (\<lambda>(pathKey, pathItem).
              list_all
                (\<lambda>(m, operation).
                   case parameters operation of None \<Rightarrow> True | Some ps \<Rightarrow> distinct ps)
                pathItem)
           (paths doc)
      then None
      else Some (Failure ''uniqueItems''))"

declare decimal.simps [simp del] bit_length.simps [simp del]

section \<open>Facts about the string functions\<close>

lemma not_word_char [simp]:
  "\<not> word_char CHR '':''" "\<not> word_char CHR ''{''" "\<not> word_char CHR ''}''"
  "\<not> word_char CHR ''/''"
  by (simp_all add: word_char_def)

lemma digit_of_facts:
  assumes "d < 10"
  shows "digit_char (''0123456789'' ! d)"
    and "digit_value (''0123456789'' ! d) = int d"
    and "\<not> white_space (''0123456789'' ! d)"
    and "''0123456789'' ! d \<noteq> CHR ''-''"
    and "''0123456789'' ! d \<noteq> CHR ''+''"
proof -
  from assms have d: "d \<in> {0, 1, 2, 3, 4, 5, 6, 7, 8, 9}" by auto
  from d show "digit_char (''0123456789'' ! d)"
    by (elim insertE) (simp_all add: digit_char_def)
  from d show "digit_value (''0123456789'' ! d) = int d"
    by (elim insertE) (simp_all add: digit_value_def)
  from d show "\<not> white_space (''0123456789'' ! d)"
    by (elim insertE) (simp_all add: white_space_def)
  from d show "''0123456789'' ! d \<noteq> CHR ''-''"
    by (elim insertE) simp_all
  from d show "''0123456789'' ! d \<noteq> CHR ''+''"
    by (elim insertE) simp_all
qed

lemma decimal_not_Nil: "decimal n \<noteq> []"
  by (subst decimal.simps) simp

lemma decimal_digits: "c \<in> set (decimal n) \<Longrightarrow> digit_char c"
proof (induction n arbitrary: c rule: decimal.induct)
  case (1 n)
  show ?case
  proof (cases "n < 10")
    case True
    then show ?thesis
      using "1.prems" digit_of_facts(1) [of n] by (subst (asm) decimal.simps) simp
  next
    case False
    then show ?thesis
      using "1.prems" "1.IH" digit_of_facts(1) [of "n mod 10"]
      by (subst (asm) decimal.simps) auto
  qed
qed

lemma digits_value_append:
  "digits_value acc (xs @ ys) = digits_value (digits_value acc xs) ys"
  by (induction xs arbitrary: acc) simp_all

lemma digits_value_decimal: "digits_value 0 (decimal n) = int n"
proof (induction n rule: decimal.induct)
  case (1 n)
  show ?case
  proof (cases "n < 10")
    case True
    then show ?thesis
      using digit_of_facts(2) [of n] by (subst decimal.simps) simp
  next
    case False
    have "digits_value 0 (decimal n) =
          digits_value 0 (decimal (n div 10) @ [''0123456789'' ! (n mod 10)])"
      using False by (subst decimal.simps) simp
    also have "\<dots> = int (n div 10) * 10 + int (n mod 10)"
      using False "1.IH" digit_of_facts(2) [of "n mod 10"]
      by (simp add: digits_value_append)
    also have "\<dots> = int n" by presburger
    finally show ?thesis .
  qed
qed

lemma digit_not_other:
  "digit_char c \<Longrightarrow> \<not> white_space c \<and> c \<noteq> CHR ''-'' \<and> c \<noteq> CHR ''+''"
  by (auto simp: digit_char_def white_space_def)

lemma takeWhile_all: "\<forall>x\<in>set xs. P x \<Longrightarrow> takeWhile P xs = xs"
  by simp

text \<open>An integer below \<open>2^53\<close> is its own number.\<close>

lemma Number_small: "\<bar>i\<bar> < 2 ^ 53 \<Longrightarrow> Number i = Finite i"
proof -
  assume a: "\<bar>i\<bar> < 2 ^ 53"
  then have n: "nat \<bar>i\<bar> < 2 ^ 53"
    by (simp add: nat_less_iff)
  have "(2::nat) ^ 53 \<le> 2 ^ 1024"
    by (rule power_increasing) simp_all
  then have "\<not> (2::nat) ^ 1024 \<le> nat \<bar>i\<bar>"
    using n by linarith
  then show ?thesis
    using n by (simp add: Number_def round_to_double_def Let_def)
qed

lemma parseInt_digits:
  assumes "ds \<noteq> []" and "\<forall>c\<in>set ds. digit_char c"
    and "rest = [] \<or> \<not> digit_char (hd rest)"
  shows "parseInt (ds @ rest) = Number (digits_value 0 ds)"
proof -
  obtain c cs where ds: "ds = c # cs" using assms(1) by (cases ds) auto
  have c: "digit_char c" and cs: "\<forall>x\<in>set cs. digit_char x" using assms(2) ds by simp_all
  have tw: "takeWhile digit_char (cs @ rest) = cs"
    using cs assms(3) by (cases rest) simp_all
  show ?thesis
    using digit_not_other [OF c] c
    by (simp add: parseInt_def ds Let_def tw)
qed

lemma parseInt_all_digits:
  assumes "ds \<noteq> []" and "\<forall>c\<in>set ds. digit_char c"
  shows "parseInt ds = Number (digits_value 0 ds)"
  using parseInt_digits [OF assms, of "[]"] by simp

lemma parseInt_decimal: "parseInt (decimal n) = Number (int n)"
  using parseInt_all_digits [of "decimal n"] decimal_not_Nil decimal_digits digits_value_decimal
  by auto

lemma parseInt_minus_decimal: "parseInt (CHR ''-'' # decimal n) = Number (- int n)"
proof -
  have all: "\<forall>x\<in>set (decimal n). digit_char x"
    using decimal_digits by blast
  show ?thesis
    using decimal_not_Nil [of n] all digits_value_decimal [of n]
    by (simp add: parseInt_def Let_def white_space_def takeWhile_all)
qed

lemma parseInt_toString:
  assumes "\<bar>i\<bar> < 2 ^ 53"
  shows "parseInt (toString cs (Finite i)) = Finite i"
proof -
  have "(2::int) ^ 53 < 10 ^ 21" by simp
  then have small: "\<bar>i\<bar> < 10 ^ 21" using assms by linarith
  show ?thesis
  proof (cases "i < 0")
    case True
    then have "parseInt (toString cs (Finite i)) = Number (- int (nat (- i)))"
      using small by (simp add: toString_def parseInt_minus_decimal)
    then show ?thesis using True Number_small [OF assms] by simp
  next
    case False
    then have "parseInt (toString cs (Finite i)) = Number (int (nat i))"
      using small by (simp add: toString_def parseInt_decimal)
    then show ?thesis using False Number_small [OF assms] by simp
  qed
qed

lemma split_on_not_Nil: "split_on sep s \<noteq> []"
  by (induction s) (auto split: list.splits)

lemma hd_split_on: "hd (split_on sep s) = takeWhile (\<lambda>c. c \<noteq> sep) s"
  using split_on_not_Nil [of sep] by (induction s) (auto split: list.splits)

lemma split_on_no_sep: "sep \<notin> set s \<Longrightarrow> split_on sep s = [s]"
  by (induction s) auto

lemma split_on_append:
  "sep \<notin> set a \<Longrightarrow> split_on sep (a @ sep # rest) = a # split_on sep rest"
  by (induction a) auto

lemma second_piece:
  assumes "sep \<notin> set a"
  shows "at_index (split_on sep (a @ sep # rest)) 1 = Some (takeWhile (\<lambda>c. c \<noteq> sep) rest)"
proof -
  obtain p ps where p: "split_on sep rest = p # ps"
    using split_on_not_Nil [of sep rest] by (cases "split_on sep rest") auto
  then have "p = takeWhile (\<lambda>c. c \<noteq> sep) rest"
    using hd_split_on [of sep rest] by simp
  then show ?thesis
    using assms p by (simp add: split_on_append at_index_def)
qed

section \<open>Facts about the path parameters\<close>

lemma replace_no_match: "pathParamaters s = [] \<Longrightarrow> replace_colon_parameters s = s"
  by (induction s rule: pathParamaters.induct) (auto split: if_splits)

lemma exportEndpoint_replace: "exportEndpoint e = CHR ''/'' # replace_colon_parameters e"
  by (simp add: exportEndpoint_def replace_no_match)

lemma takeWhile_replace:
  "takeWhile word_char (replace_colon_parameters s) = takeWhile word_char s"
  by (induction s) auto

lemma dropWhile_replace:
  "(case dropWhile word_char (replace_colon_parameters s) of
      [] \<Rightarrow> False | x # _ \<Rightarrow> x = CHR ''}'') =
   (case dropWhile word_char s of [] \<Rightarrow> False | x # _ \<Rightarrow> x = CHR ''}'')"
  by (induction s) auto

lemma brace_here_replace:
  "brace_parameter_here (CHR ''{'' # replace_colon_parameters cs) =
   brace_parameter_here (CHR ''{'' # cs)"
  by (simp add: brace_parameter_here_def takeWhile_replace dropWhile_replace)

lemma has_brace_append: "has_brace_parameter ys \<Longrightarrow> has_brace_parameter (xs @ ys)"
  by (induction xs) auto

lemma has_brace_dropWhile:
  "has_brace_parameter (dropWhile P cs) \<Longrightarrow> has_brace_parameter cs"
  using has_brace_append [of "dropWhile P cs" "takeWhile P cs"] by simp

lemma brace_here_name:
  "\<forall>x\<in>set n. word_char x \<Longrightarrow> n \<noteq> [] \<Longrightarrow>
   brace_parameter_here (CHR ''{'' # n @ CHR ''}'' # r)"
  by (simp add: brace_parameter_here_def)

text \<open>
  Replacing the colon parameters and then the brace parameters gives the string back,
  when the string had no brace parameter of its own.
\<close>

lemma path_round_trip:
  "\<not> has_brace_parameter s \<Longrightarrow>
   parametersReplace (replace_colon_parameters s) PATH_PARAMETERS ps = Inr s"
proof (induction s rule: replace_colon_parameters.induct)
  case 1
  then show ?case by simp
next
  case (2 c cs)
  show ?case
  proof (cases "c = CHR '':'' \<and> takeWhile word_char cs \<noteq> []")
    case True
    let ?n = "takeWhile word_char cs" and ?r = "dropWhile word_char cs"
    have nb: "\<not> has_brace_parameter ?r"
      using "2.prems" has_brace_dropWhile [of word_char cs] by auto
    have ih: "parametersReplace (replace_colon_parameters ?r) PATH_PARAMETERS ps = Inr ?r"
      using "2.IH"(1) True nb by simp
    have w: "\<forall>x\<in>set ?n. word_char x" by (auto dest: set_takeWhileD)
    have here: "brace_parameter_here (CHR ''{'' # ?n @ CHR ''}'' # replace_colon_parameters ?r)"
      using brace_here_name [OF w] True by simp
    have tw: "takeWhile word_char (?n @ CHR ''}'' # replace_colon_parameters ?r) = ?n"
      using w by simp
    have dw: "dropWhile word_char (?n @ CHR ''}'' # replace_colon_parameters ?r)
               = CHR ''}'' # replace_colon_parameters ?r"
      using w by simp
    show ?thesis
      using True here ih tw dw by (simp add: replacement_def)
  next
    case False
    have nb: "\<not> has_brace_parameter cs" and nh: "\<not> brace_parameter_here (c # cs)"
      using "2.prems" by auto
    have ih: "parametersReplace (replace_colon_parameters cs) PATH_PARAMETERS ps = Inr cs"
      using "2.IH"(2) False nb by simp
    have "\<not> brace_parameter_here (c # replace_colon_parameters cs)"
    proof (cases "c = CHR ''{''")
      case True
      then show ?thesis using nh brace_here_replace by simp
    next
      case False
      then show ?thesis by (simp add: brace_parameter_here_def)
    qed
    then show ?thesis using False ih by auto
  qed
qed

section \<open>Facts about the import loops\<close>

lemma parametersReplace_path_total:
  "\<exists>q. parametersReplace s PATH_PARAMETERS ps = Inr q"
  by (induction s PATH_PARAMETERS ps rule: parametersReplace.induct)
     (auto simp: replacement_def)

lemma newRoute_None:
  "operationObject.responses parsedRoute = None \<Longrightarrow>
   newRoute cs version routePath m parsedRoute = Inl (TypeError ''responses'')"
  by (simp add: newRoute_def)

lemma newRoute_Some:
  assumes "operationObject.responses parsedRoute = Some declared"
  shows "\<exists>r. newRoute cs version routePath m parsedRoute = Inr r \<and> http_method r = m \<and>
             route.responses r = routeResponses cs version parsedRoute declared"
  using assms parametersReplace_path_total [of routePath None]
  by (auto simp: newRoute_def Let_def)

lemma newRoute_endpoint:
  "operationObject.responses parsedRoute \<noteq> None \<Longrightarrow>
   map_sum id endpoint (newRoute cs version routePath m parsedRoute) =
   map_sum id RemoveLeadingSlash (parametersReplace routePath PATH_PARAMETERS None)"
  by (auto simp: newRoute_def Let_def split: sum.splits)

lemma newRoute_fields:
  assumes "newRoute cs version routePath m parsedRoute = Inr r"
  shows "http_method r = m"
    and "\<exists>declared. operationObject.responses parsedRoute = Some declared \<and>
           route.responses r = routeResponses cs version parsedRoute declared"
  using assms by (auto simp: newRoute_def Let_def split: sum.splits option.splits)

lemma methods_loop_eq:
  "methods_loop cs version routePath pathItem pushed =
   (if list_all (\<lambda>(m, parsedRoute).
                   m \<in> set methods \<longrightarrow> operationObject.responses parsedRoute \<noteq> None) pathItem
    then Inr (pushed @ routesOfItem cs version routePath pathItem)
    else Inl (TypeError ''responses''))"
proof (induction pathItem arbitrary: pushed)
  case Nil
  then show ?case by (simp add: routesOfItem_def)
next
  case (Cons entry rest)
  obtain m parsedRoute where entry: "entry = (m, parsedRoute)" by (cases entry)
  show ?case
  proof (cases "m \<in> set methods")
    case False
    then show ?thesis using Cons.IH [of pushed] by (simp add: entry routesOfItem_def)
  next
    case True
    show ?thesis
    proof (cases "operationObject.responses parsedRoute")
      case None
      then show ?thesis using True by (simp add: entry newRoute_None)
    next
      case (Some declared)
      then obtain r where r: "newRoute cs version routePath m parsedRoute = Inr r"
        using newRoute_Some by blast
      show ?thesis
        using True Some r Cons.IH [of "pushed @ [r]"] by (simp add: entry routesOfItem_def)
    qed
  qed
qed

lemma paths_loop_eq:
  "paths_loop cs version ps pushed =
   (if list_all (\<lambda>(routePath, pathItem).
                   list_all (\<lambda>(m, parsedRoute).
                               m \<in> set methods \<longrightarrow>
                               operationObject.responses parsedRoute \<noteq> None) pathItem) ps
    then Inr (pushed @
              concat (map (\<lambda>(routePath, pathItem). routesOfItem cs version routePath pathItem) ps))
    else Inl (TypeError ''responses''))"
proof (induction ps arbitrary: pushed)
  case Nil
  then show ?case by simp
next
  case (Cons entry rest)
  obtain routePath pathItem where entry: "entry = (routePath, pathItem)" by (cases entry)
  show ?case
    by (simp add: entry methods_loop_eq Cons.IH)
qed

lemma createRoutes_eq:
  "createRoutes cs parsedAPI version =
   (if declaresResponses parsedAPI
    then Inr (concat (map (\<lambda>(routePath, pathItem). routesOfItem cs version routePath pathItem)
                        (paths parsedAPI)))
    else Inl (TypeError ''responses''))"
  by (simp add: createRoutes_def paths_loop_eq declaresResponses_def)

lemma createRoutes_returns:
  "(\<exists>rs. createRoutes cs parsedAPI version = Inr rs) \<longleftrightarrow> declaresResponses parsedAPI"
  by (simp add: createRoutes_eq)

lemma declaresResponses_entry:
  assumes "declaresResponses parsedAPI" and "(routePath, pathItem) \<in> set (paths parsedAPI)"
    and "(m, parsedRoute) \<in> set pathItem" and "m \<in> set methods"
  shows "operationObject.responses parsedRoute \<noteq> None"
  using assms by (fastforce simp: declaresResponses_def list_all_iff)

section \<open>Facts about the responses of a route\<close>

lemma find_eq: "find (\<lambda>code. code = n) xs = (if n \<in> set xs then Some n else None)"
  by (induction xs) auto

lemma findStatusCode_eq:
  "findStatusCode cs responseStatus =
   (case parseInt responseStatus of
      Finite n \<Rightarrow> if n \<in> set (statusCodes cs) then Some n else None
    | _ \<Rightarrow> None)"
  by (simp add: findStatusCode_def find_eq split: number.splits)

lemma routeResponses_loop_eq:
  "routeResponses_loop cs version parsedRoute declared pushed =
   pushed @ keptResponses cs version parsedRoute declared"
proof (induction declared arbitrary: pushed)
  case Nil
  then show ?case by (simp add: keptResponses_def)
next
  case (Cons entry rest)
  obtain responseStatus r where entry: "entry = (responseStatus, r)" by (cases entry)
  show ?case
    using Cons.IH
    by (cases "findStatusCode cs responseStatus") (simp_all add: entry keptResponses_def)
qed

lemma routeResponses_eq:
  "routeResponses cs version parsedRoute declared =
   (if keptResponses cs version parsedRoute declared = [] then [defaultResponse cs]
    else keptResponses cs version parsedRoute declared)"
  by (simp add: routeResponses_def routeResponses_loop_eq defaultResponse_def buildHeader_def)

lemma routeResponses_not_Nil: "routeResponses cs version parsedRoute declared \<noteq> []"
  by (simp add: routeResponses_eq)

lemma keptResponses_Nil:
  "\<forall>(responseStatus, r) \<in> set declared. findStatusCode cs responseStatus = None \<Longrightarrow>
   keptResponses cs version parsedRoute declared = []"
  by (induction declared) (auto simp: keptResponses_def)

lemma routesOfItem_member:
  assumes "(routeMethod, parsedRoute) \<in> set pathItem" and "routeMethod \<in> set methods"
    and "operationObject.responses parsedRoute = Some declared"
  shows "\<exists>r\<in>set (routesOfItem cs version routePath pathItem).
           newRoute cs version routePath routeMethod parsedRoute = Inr r"
proof -
  obtain r where r: "newRoute cs version routePath routeMethod parsedRoute = Inr r"
    using newRoute_Some [OF assms(3)] by blast
  have "projr (newRoute cs version routePath routeMethod parsedRoute) \<in>
        set (routesOfItem cs version routePath pathItem)"
    unfolding routesOfItem_def using assms(1,2) by force
  then show ?thesis using r by simp
qed

lemma routesOfItem_source:
  assumes "r \<in> set (routesOfItem cs version routePath pathItem)"
    and "list_all (\<lambda>(m, parsedRoute).
                     m \<in> set methods \<longrightarrow> operationObject.responses parsedRoute \<noteq> None) pathItem"
  shows "\<exists>routeMethod parsedRoute.
           (routeMethod, parsedRoute) \<in> set pathItem \<and> routeMethod \<in> set methods \<and>
           newRoute cs version routePath routeMethod parsedRoute = Inr r"
proof -
  obtain routeMethod parsedRoute where
    m: "(routeMethod, parsedRoute) \<in> set pathItem" "routeMethod \<in> set methods"
       "r = projr (newRoute cs version routePath routeMethod parsedRoute)"
    using assms(1) unfolding routesOfItem_def by auto
  have "operationObject.responses parsedRoute \<noteq> None"
    using assms(2) m(1,2) by (auto simp: list_all_iff)
  then obtain r' where "newRoute cs version routePath routeMethod parsedRoute = Inr r'"
    using newRoute_Some by blast
  then show ?thesis using m by auto
qed

lemma routesOfItem_methods:
  assumes "list_all (\<lambda>(m, parsedRoute).
                       m \<in> set methods \<longrightarrow> operationObject.responses parsedRoute \<noteq> None) pathItem"
  shows "map http_method (routesOfItem cs version routePath pathItem) =
         filter (\<lambda>m. m \<in> set methods) (map fst pathItem)"
  using assms
proof (induction pathItem)
  case Nil
  then show ?case by (simp add: routesOfItem_def)
next
  case (Cons entry rest)
  obtain m parsedRoute where entry: "entry = (m, parsedRoute)" by (cases entry)
  show ?case
  proof (cases "m \<in> set methods")
    case False
    then show ?thesis using Cons by (simp add: routesOfItem_def entry)
  next
    case True
    then have "operationObject.responses parsedRoute \<noteq> None"
      using Cons.prems by (simp add: entry)
    then obtain r where r: "newRoute cs version routePath m parsedRoute = Inr r"
      using newRoute_Some by blast
    show ?thesis
      using True Cons r newRoute_fields(1) [OF r] by (simp add: routesOfItem_def entry)
  qed
qed

text \<open>The routes of a document that \<open>createRoutes\<close> converts.\<close>

lemma createRoutes_member:
  assumes "createRoutes cs parsedAPI version = Inr rs"
    and "(routePath, pathItem) \<in> set (paths parsedAPI)"
    and "(routeMethod, parsedRoute) \<in> set pathItem" and "routeMethod \<in> set methods"
  shows "\<exists>r\<in>set rs. \<exists>declared.
           operationObject.responses parsedRoute = Some declared \<and>
           newRoute cs version routePath routeMethod parsedRoute = Inr r \<and>
           route.responses r = routeResponses cs version parsedRoute declared"
proof -
  have d: "declaresResponses parsedAPI"
    using assms(1) createRoutes_returns by blast
  then obtain declared where declared: "operationObject.responses parsedRoute = Some declared"
    using declaresResponses_entry [OF d assms(2,3,4)] by auto
  obtain r where r: "r \<in> set (routesOfItem cs version routePath pathItem)"
      "newRoute cs version routePath routeMethod parsedRoute = Inr r"
    using routesOfItem_member [OF assms(3,4) declared] by blast
  have "rs = concat (map (\<lambda>(routePath, pathItem). routesOfItem cs version routePath pathItem)
                       (paths parsedAPI))"
    using assms(1) d by (simp add: createRoutes_eq)
  then have "r \<in> set rs" using r(1) assms(2) by force
  moreover have "route.responses r = routeResponses cs version parsedRoute declared"
    using newRoute_fields(2) [OF r(2)] declared by auto
  ultimately show ?thesis using r(2) declared by blast
qed

lemma createRoutes_source:
  assumes "createRoutes cs parsedAPI version = Inr rs" and "r \<in> set rs"
  shows "\<exists>routePath pathItem routeMethod parsedRoute.
           (routePath, pathItem) \<in> set (paths parsedAPI) \<and>
           (routeMethod, parsedRoute) \<in> set pathItem \<and> routeMethod \<in> set methods \<and>
           newRoute cs version routePath routeMethod parsedRoute = Inr r"
proof -
  have d: "declaresResponses parsedAPI"
    using assms(1) createRoutes_returns by blast
  have "rs = concat (map (\<lambda>(routePath, pathItem). routesOfItem cs version routePath pathItem)
                       (paths parsedAPI))"
    using assms(1) d by (simp add: createRoutes_eq)
  then obtain routePath pathItem where
    p: "(routePath, pathItem) \<in> set (paths parsedAPI)"
       "r \<in> set (routesOfItem cs version routePath pathItem)"
    using assms(2) by auto
  have "list_all (\<lambda>(m, parsedRoute).
                    m \<in> set methods \<longrightarrow> operationObject.responses parsedRoute \<noteq> None) pathItem"
    using d p(1) by (auto simp: declaresResponses_def list_all_iff)
  then show ?thesis
    using routesOfItem_source [OF p(2)] p(1) by blast
qed

lemma createRoutes_methods:
  assumes "createRoutes cs parsedAPI version = Inr rs"
  shows "map http_method rs =
         concat (map (\<lambda>(routePath, pathItem).
                        filter (\<lambda>m. m \<in> set methods) (map fst pathItem))
                   (paths parsedAPI))"
proof -
  have d: "declaresResponses parsedAPI"
    using assms createRoutes_returns by blast
  have rs: "rs = concat (map (\<lambda>(routePath, pathItem). routesOfItem cs version routePath pathItem)
                       (paths parsedAPI))"
    using assms d by (simp add: createRoutes_eq)
  have "map http_method
          (concat (map (\<lambda>(routePath, pathItem). routesOfItem cs version routePath pathItem) ps)) =
        concat (map (\<lambda>(routePath, pathItem).
                       filter (\<lambda>m. m \<in> set methods) (map fst pathItem)) ps)"
    if "list_all (\<lambda>(routePath, pathItem).
                   list_all (\<lambda>(m, parsedRoute).
                               m \<in> set methods \<longrightarrow>
                               operationObject.responses parsedRoute \<noteq> None) pathItem) ps"
    for ps
    using that by (induction ps) (auto simp: routesOfItem_methods)
  then show ?thesis
    using d unfolding rs declaresResponses_def by blast
qed

text \<open>What \<open>import\<close> returns an environment for, and with which routes.\<close>

lemma import_routes:
  assumes "fst (import cs filePath dereferenced) = Inr (Some env)"
  shows "\<exists>parsedAPI version.
           dereferenced = Inr parsedAPI \<and>
           createRoutes cs parsedAPI version = Inr (routes env)"
proof -
  obtain parsedAPI where d: "dereferenced = Inr parsedAPI"
    using assms by (cases dereferenced) (simp_all add: import_def import_body_def)
  show ?thesis
  proof (cases "isSwagger parsedAPI")
    case True
    then have "convertFromSwagger cs parsedAPI = Inr env"
      using assms d by (simp add: import_def import_body_def split: sum.splits)
    then have "createRoutes cs parsedAPI SWAGGER = Inr (routes env)"
      by (auto simp: convertFromSwagger_def Let_def split: sum.splits)
    then show ?thesis using d by blast
  next
    case False
    then have v3: "isOpenAPIV3 parsedAPI"
      using assms d by (auto simp: import_def import_body_def split: if_splits)
    then have "convertFromOpenAPIV3 cs parsedAPI = Inr env"
      using assms d False by (simp add: import_def import_body_def split: sum.splits)
    then have "createRoutes cs parsedAPI OPENAPI_V3 = Inr (routes env)"
      by (auto simp: convertFromOpenAPIV3_def Let_def split: sum.splits)
    then show ?thesis using d by blast
  qed
qed

section \<open>Facts about objects\<close>

lemma insert_index_keys:
  "fst ` set (insert_index i k v obj) = insert k (fst ` set obj)"
  by (induction obj) (auto split: option.splits)

lemma insert_index_map_of:
  "map_of obj k = None \<Longrightarrow> map_of (insert_index i k v obj) = (map_of obj)(k \<mapsto> v)"
proof (induction obj)
  case Nil
  then show ?case by simp
next
  case (Cons entry rest)
  have k: "fst entry \<noteq> k" and rest: "map_of rest k = None"
    using Cons.prems by (cases entry; auto split: if_splits)+
  show ?case
    using k Cons.IH [OF rest]
    by (cases entry) (auto split: option.splits simp: fun_upd_twist)
qed

lemma insert_index_distinct:
  "distinct (map fst obj) \<Longrightarrow> k \<notin> fst ` set obj \<Longrightarrow>
   distinct (map fst (insert_index i k v obj))"
proof (induction obj)
  case Nil
  then show ?case by simp
next
  case (Cons entry rest)
  then show ?case
    using insert_index_keys [of i k v rest]
    by (auto split: option.splits)
qed

lemma map_add_new: "m k = None \<Longrightarrow> [k \<mapsto> v] ++ m = m(k \<mapsto> v)"
  by (rule ext) (auto simp: map_add_def split: option.splits)

lemma object_set_map_of:
  "map_of (object_set k v obj) =
   (if k = ''__proto__'' then map_of obj else (map_of obj)(k \<mapsto> v))"
  by (auto simp: object_set_def update_conv' insert_index_map_of map_add_new
           split: option.splits)

lemma object_set_distinct:
  "distinct (map fst obj) \<Longrightarrow> distinct (map fst (object_set k v obj))"
  by (auto simp: object_set_def distinct_update insert_index_distinct map_of_eq_None_iff
           split: option.splits)

lemma object_set_new:
  "k \<noteq> ''__proto__'' \<Longrightarrow> k \<notin> fst ` set obj \<Longrightarrow> array_index k = None \<Longrightarrow>
   object_set k v obj = obj @ [(k, v)]"
  by (simp add: object_set_def map_of_eq_None_iff)

lemma map_upd_add: "m(k \<mapsto> v) ++ n = m ++ ([k \<mapsto> v] ++ n)"
  by (rule ext) (simp add: map_add_def split: option.splits)

lemma find_snoc:
  "find P (xs @ [x]) =
   (case find P xs of Some y \<Rightarrow> Some y | None \<Rightarrow> if P x then Some x else None)"
  by (induction xs) auto

section \<open>Facts about the exported parameters\<close>

lemma fold_push: "fold (\<lambda>x acc. acc @ [f x]) xs acc0 = acc0 @ map f xs"
  by (induction xs arbitrary: acc0) simp_all

lemma exportParameters_map:
  "exportParameters matches =
   map (\<lambda>parameter. \<lparr>name = drop 1 parameter, param_in = ''path'',
                       schema_type = ''string'', required = True\<rparr>) matches"
  by (simp add: exportParameters_def fold_push)

lemma pathParamaters_shape:
  "m \<in> set (pathParamaters s) \<Longrightarrow>
   \<exists>n. m = CHR '':'' # n \<and> n \<noteq> [] \<and> (\<forall>c\<in>set n. word_char c)"
proof (induction s rule: pathParamaters.induct)
  case 1
  then show ?case by simp
next
  case (2 c cs)
  show ?case
  proof (cases "c = CHR '':'' \<and> takeWhile word_char cs \<noteq> []")
    case True
    then consider "m = CHR '':'' # takeWhile word_char cs"
      | "m \<in> set (pathParamaters (dropWhile word_char cs))"
      using "2.prems" by auto
    then show ?thesis
    proof cases
      case 1
      then show ?thesis using True by (auto dest: set_takeWhileD)
    next
      case 2
      then show ?thesis using "2.IH"(1) True by blast
    qed
  next
    case False
    then show ?thesis using "2.prems" "2.IH"(2) by auto
  qed
qed

section \<open>Facts about the exported paths\<close>

lemma operationAt_reducer:
  "operationAt (pathsReducer cs env r acc) k m =
   (if k = exportEndpoint (endpoint r) \<and> m = http_method r
    then Some (exportOperation cs env r)
    else operationAt acc k m)"
  by (auto simp: operationAt_def pathsReducer_def Let_def update_conv' split: option.splits)

lemma operationAt_fold:
  "operationAt (fold (pathsReducer cs env) rs acc) k m =
   (case find (\<lambda>r. exportEndpoint (endpoint r) = k \<and> http_method r = m) (rev rs) of
      Some r \<Rightarrow> Some (exportOperation cs env r)
    | None \<Rightarrow> operationAt acc k m)"
proof (induction rs arbitrary: acc)
  case Nil
  then show ?case by simp
next
  case (Cons r rs)
  show ?case
    by (simp add: Cons.IH find_snoc operationAt_reducer split: option.splits)
qed

lemma exportPaths_operationAt:
  "operationAt (exportPaths cs env) k m =
   map_option (exportOperation cs env)
     (find (\<lambda>r. exportEndpoint (endpoint r) = k \<and> http_method r = m) (rev (routes env)))"
  unfolding exportPaths_def operationAt_fold
  by (simp add: operationAt_def split: option.splits)

lemma keys_reducer:
  "fst ` set (pathsReducer cs env r acc) = insert (exportEndpoint (endpoint r)) (fst ` set acc)"
  by (simp add: pathsReducer_def Let_def update_conv' flip: dom_map_of_conv_image_fst)

lemma keys_fold:
  "fst ` set (fold (pathsReducer cs env) rs acc) =
   (\<lambda>r. exportEndpoint (endpoint r)) ` set rs \<union> fst ` set acc"
  by (induction rs arbitrary: acc) (auto simp: keys_reducer)

lemma exportPaths_keys:
  "fst ` set (exportPaths cs env) = (\<lambda>r. exportEndpoint (endpoint r)) ` set (routes env)"
  by (simp add: exportPaths_def keys_fold)

section \<open>Facts about the exported headers and responses\<close>

lemma headersReducer_eq:
  "headersReducer h acc =
   (if exportedHeader h then object_set (key h) (snd (headerEntry h)) acc else acc)"
  by (simp add: headersReducer_def exportedHeader_def headerEntry_def object_set_def)

lemma headersReducer_map_of:
  "map_of (headersReducer h acc) =
   (if exportedHeader h then (map_of acc)(key h \<mapsto> snd (headerEntry h)) else map_of acc)"
  by (simp add: headersReducer_eq object_set_map_of exportedHeader_def)

lemma fold_headers_map_of:
  "map_of (fold headersReducer hs acc0) =
   map_of acc0 ++ map_of (rev (map headerEntry (filter exportedHeader hs)))"
proof (induction hs arbitrary: acc0)
  case Nil
  then show ?case by simp
next
  case (Cons h hs)
  show ?case
  proof (cases "exportedHeader h")
    case True
    have "map_of (fold headersReducer (h # hs) acc0) =
          map_of (headersReducer h acc0) ++
          map_of (rev (map headerEntry (filter exportedHeader hs)))"
      by (simp add: Cons.IH)
    also have "\<dots> = (map_of acc0)(key h \<mapsto> snd (headerEntry h)) ++
                     map_of (rev (map headerEntry (filter exportedHeader hs)))"
      using True by (simp only: headersReducer_map_of if_True)
    also have "\<dots> = map_of acc0 ++ ([key h \<mapsto> snd (headerEntry h)] ++
                     map_of (rev (map headerEntry (filter exportedHeader hs))))"
      by (rule map_upd_add)
    also have "[key h \<mapsto> snd (headerEntry h)] ++
                 map_of (rev (map headerEntry (filter exportedHeader hs))) =
               map_of (rev (map headerEntry (filter exportedHeader (h # hs))))"
      using True by (simp add: headerEntry_def)
    finally show ?thesis .
  next
    case False
    have "map_of (fold headersReducer (h # hs) acc0) =
          map_of (headersReducer h acc0) ++
          map_of (rev (map headerEntry (filter exportedHeader hs)))"
      by (simp add: Cons.IH)
    also have "map_of (headersReducer h acc0) = map_of acc0"
      using False by (simp only: headersReducer_map_of if_False)
    finally show ?thesis using False by simp
  qed
qed

lemma fold_headers_distinct:
  "distinct (map fst acc0) \<Longrightarrow> distinct (map fst (fold headersReducer hs acc0))"
proof (induction hs arbitrary: acc0)
  case Nil
  then show ?case by simp
next
  case (Cons h hs)
  have "distinct (map fst (headersReducer h acc0))"
    using Cons.prems by (simp add: headersReducer_eq object_set_distinct)
  then show ?case using Cons.IH by simp
qed

lemma fold_headers_fresh:
  "distinct (map fst acc0 @ map key (filter exportedHeader hs)) \<Longrightarrow>
   \<forall>h\<in>set hs. array_index (key h) = None \<Longrightarrow>
   fold headersReducer hs acc0 = acc0 @ map headerEntry (filter exportedHeader hs)"
proof (induction hs arbitrary: acc0)
  case Nil
  then show ?case by simp
next
  case (Cons h hs)
  show ?case
  proof (cases "exportedHeader h")
    case True
    have fresh: "key h \<notin> fst ` set acc0" using Cons.prems(1) True by auto
    have step: "headersReducer h acc0 = acc0 @ [headerEntry h]"
      using True fresh Cons.prems(2)
      by (simp add: headersReducer_eq object_set_new exportedHeader_def headerEntry_def)
    have d: "distinct (map fst (acc0 @ [headerEntry h]) @ map key (filter exportedHeader hs))"
      using Cons.prems(1) True by (auto simp: headerEntry_def)
    have "fold headersReducer (h # hs) acc0 = fold headersReducer hs (acc0 @ [headerEntry h])"
      by (simp add: step)
    also have "\<dots> = (acc0 @ [headerEntry h]) @ map headerEntry (filter exportedHeader hs)"
      using Cons.IH [OF d] Cons.prems(2) by simp
    finally show ?thesis using True by simp
  next
    case False
    then have step: "headersReducer h acc0 = acc0"
      by (simp add: headersReducer_eq)
    have "fold headersReducer (h # hs) acc0 = fold headersReducer hs acc0"
      by (simp add: step)
    then show ?thesis using False Cons.IH Cons.prems by simp
  qed
qed

lemma exportHeaders_map_of:
  "map_of (exportHeaders hs) = map_of (rev (map headerEntry (filter exportedHeader hs)))"
  by (simp add: exportHeaders_def fold_headers_map_of)

lemma exportHeaders_distinct: "distinct (map fst (exportHeaders hs))"
  by (simp add: exportHeaders_def fold_headers_distinct)

lemma exportHeaders_keys:
  "fst ` set (exportHeaders hs) = key ` {h \<in> set hs. exportedHeader h}"
proof -
  have "fst ` set (exportHeaders hs) = dom (map_of (exportHeaders hs))"
    by (simp add: dom_map_of_conv_image_fst)
  also have "\<dots> = fst ` set (rev (map headerEntry (filter exportedHeader hs)))"
    by (simp only: exportHeaders_map_of dom_map_of_conv_image_fst)
  also have "\<dots> = key ` {h \<in> set hs. exportedHeader h}"
    by (auto simp: headerEntry_def image_iff)
  finally show ?thesis .
qed

lemma exportHeaders_entries:
  assumes "(k, obj) \<in> set (exportHeaders hs)"
  shows "\<exists>h\<in>set hs. exportedHeader h \<and> (k, obj) = headerEntry h"
proof -
  have "map_of (exportHeaders hs) k = Some obj"
    using assms exportHeaders_distinct by simp
  then have "map_of (rev (map headerEntry (filter exportedHeader hs))) k = Some obj"
    by (simp only: exportHeaders_map_of)
  then have "(k, obj) \<in> set (rev (map headerEntry (filter exportedHeader hs)))"
    by (rule map_of_SomeD)
  then show ?thesis by auto
qed

lemma exportHeaders_last:
  "map_of (exportHeaders hs) k =
   map_option (\<lambda>h. snd (headerEntry h))
     (find (\<lambda>h. exportedHeader h \<and> key h = k) (rev hs))"
proof -
  have "map_of (rev (map headerEntry (filter exportedHeader xs))) k =
        map_option (\<lambda>h. snd (headerEntry h))
          (find (\<lambda>h. exportedHeader h \<and> key h = k) (rev xs))" for xs
    by (induction xs) (auto simp: find_snoc headerEntry_def map_add_def split: option.splits)
  then show ?thesis by (simp only: exportHeaders_map_of)
qed

lemma responsesReducer_map_of:
  "map_of (responsesReducer cs env r acc) =
   (if toString cs (Finite (statusCode r)) = ''__proto__'' then map_of acc
    else (map_of acc)(toString cs (Finite (statusCode r)) \<mapsto> exportResponse cs env r))"
  by (simp add: responsesReducer_def object_set_map_of)

lemma fold_responses_map_of:
  "k \<noteq> ''__proto__'' \<Longrightarrow>
   map_of (fold (responsesReducer cs env) rs acc) k =
   (case find (\<lambda>r. toString cs (Finite (statusCode r)) = k) (rev rs) of
      Some r \<Rightarrow> Some (exportResponse cs env r)
    | None \<Rightarrow> map_of acc k)"
proof (induction rs arbitrary: acc)
  case Nil
  then show ?case by simp
next
  case (Cons r rs)
  show ?case
    using Cons.prems
    by (simp add: Cons.IH find_snoc responsesReducer_map_of split: option.splits)
qed

lemma exportResponses_map_of:
  "k \<noteq> ''__proto__'' \<Longrightarrow>
   map_of (exportResponses cs env rs) k =
   map_option (exportResponse cs env)
     (find (\<lambda>r. toString cs (Finite (statusCode r)) = k) (rev rs))"
  by (simp add: exportResponses_def fold_responses_map_of split: option.splits)

lemma fold_responses_distinct:
  "distinct (map fst acc) \<Longrightarrow> distinct (map fst (fold (responsesReducer cs env) rs acc))"
proof (induction rs arbitrary: acc)
  case Nil
  then show ?case by simp
next
  case (Cons r rs)
  have "distinct (map fst (responsesReducer cs env r acc))"
    using Cons.prems by (simp add: responsesReducer_def object_set_distinct)
  then show ?case using Cons.IH by simp
qed

lemma exportResponses_distinct: "distinct (map fst (exportResponses cs env rs))"
  by (simp add: exportResponses_def fold_responses_distinct)

section \<open>Facts about the conversions\<close>

lemma convertFromSwagger_eq:
  "convertFromSwagger cs parsedAPI =
   map_sum id
     (\<lambda>rs. (buildEnvironment cs)
             \<lparr>port := swaggerPort (host parsedAPI) (port (buildEnvironment cs)),
              endpointPrefix :=
                (case basePath parsedAPI of
                   None \<Rightarrow> endpointPrefix (buildEnvironment cs)
                 | Some b \<Rightarrow> if b = [] then endpointPrefix (buildEnvironment cs)
                             else Some (RemoveLeadingSlash b)),
              environment.name := or_else (info_title parsedAPI) ''Swagger import'',
              routes := rs\<rparr>)
     (createRoutes cs parsedAPI SWAGGER)"
  by (simp add: convertFromSwagger_def Let_def split: sum.splits option.splits)

lemma convertFromOpenAPIV3_no_server:
  assumes "servers parsedAPI = None \<or> servers parsedAPI = Some []"
  shows "map_sum id endpointPrefix (convertFromOpenAPIV3 cs parsedAPI) =
         map_sum id (\<lambda>rs. None) (createRoutes cs parsedAPI OPENAPI_V3)"
  using assms
  by (auto simp: convertFromOpenAPIV3_def serverPrefix_def at_index_def Let_def
           split: sum.splits)

lemma createRoutes_paths:
  "paths parsedAPI' = paths parsedAPI \<Longrightarrow>
   createRoutes cs parsedAPI' version = createRoutes cs parsedAPI version"
  by (simp add: createRoutes_def)

lemma bit_length_bound: "0 < n \<Longrightarrow> 2 ^ (bit_length n - 1) \<le> n"
proof (induction n rule: bit_length.induct)
  case (1 n)
  show ?case
  proof (cases "n div 2 = 0")
    case True
    then have "bit_length n = 1"
      using "1.prems" by (simp add: bit_length.simps [of n] bit_length.simps [of 0])
    then show ?thesis using "1.prems" by simp
  next
    case False
    then have ih: "2 ^ (bit_length (n div 2) - 1) \<le> n div 2"
      using "1.IH" "1.prems" by simp
    have pos: "0 < bit_length (n div 2)"
      using False by (simp add: bit_length.simps [of "n div 2"])
    have "bit_length n - 1 = Suc (bit_length (n div 2) - 1)"
      using "1.prems" pos by (simp add: bit_length.simps [of n])
    then have "(2::nat) ^ (bit_length n - 1) = 2 * 2 ^ (bit_length (n div 2) - 1)"
      by simp
    also have "\<dots> \<le> 2 * (n div 2)" using ih by simp
    also have "\<dots> \<le> n" by simp
    finally show ?thesis .
  qed
qed

lemma round_to_double_pos: "0 < n \<Longrightarrow> 0 < round_to_double n"
proof -
  assume n: "0 < n"
  show ?thesis
  proof (cases "n < 2 ^ 53")
    case True
    then show ?thesis using n by (simp add: round_to_double_def)
  next
    case False
    let ?shift = "bit_length n - 53"
    have "(2::nat) ^ ?shift \<le> 2 ^ (bit_length n - 1)"
      by (rule power_increasing) simp_all
    then have "2 ^ ?shift \<le> n"
      using bit_length_bound [OF n] by linarith
    then have "0 < n div 2 ^ ?shift"
      by (simp add: div_greater_zero_iff)
    then show ?thesis
      using False by (simp add: round_to_double_def Let_def)
  qed
qed

lemma Number_zero: "0 \<le> i \<Longrightarrow> Number i = Finite 0 \<longleftrightarrow> i = 0"
proof
  assume i: "0 \<le> i" and z: "Number i = Finite 0"
  show "i = 0"
  proof (rule ccontr)
    assume "i \<noteq> 0"
    then have "0 < nat \<bar>i\<bar>" using i by simp
    then have "0 < round_to_double (nat \<bar>i\<bar>)" by (rule round_to_double_pos)
    then show False
      using z i by (simp add: Number_def Let_def split: if_splits)
  qed
next
  assume "i = 0"
  then show "Number i = Finite 0" by (simp add: Number_small)
qed

lemma Number_not_NaN: "Number i \<noteq> NaN"
  by (simp add: Number_def Let_def)

lemma digits_value_nonneg:
  "0 \<le> acc \<Longrightarrow> \<forall>c\<in>set ds. digit_char c \<Longrightarrow> 0 \<le> digits_value acc ds"
  by (induction ds arbitrary: acc) (auto simp: digit_char_def digit_value_def)

lemma swaggerPort_colon:
  assumes "CHR '':'' \<notin> set hostname"
  shows "swaggerPort (Some (hostname @ CHR '':'' # rest)) defaultPort =
         (if parseInt (takeWhile (\<lambda>c. c \<noteq> CHR '':'') rest) = NaN \<or>
             parseInt (takeWhile (\<lambda>c. c \<noteq> CHR '':'') rest) = Finite 0
          then defaultPort
          else parseInt (takeWhile (\<lambda>c. c \<noteq> CHR '':'') rest))"
  using second_piece [OF assms, of rest]
  by (simp add: swaggerPort_def Let_def)

lemma swaggerPort_segment:
  assumes "CHR '':'' \<notin> set hostname" and "segment \<noteq> []"
    and "\<forall>c\<in>set segment. digit_char c" and "rest = [] \<or> hd rest = CHR '':''"
  shows "swaggerPort (Some (hostname @ CHR '':'' # segment @ rest)) defaultPort =
         (if digits_value 0 segment = 0 then defaultPort
          else Number (digits_value 0 segment))"
proof -
  have no: "\<forall>c\<in>set segment. c \<noteq> CHR '':''"
    using assms(3) by (auto simp: digit_char_def)
  have "takeWhile (\<lambda>c. c \<noteq> CHR '':'') (segment @ rest) = segment"
    using no assms(4) by (cases rest) simp_all
  moreover have "parseInt segment = Number (digits_value 0 segment)"
    using parseInt_all_digits [OF assms(2,3)] .
  moreover have "0 \<le> digits_value 0 segment"
    using digits_value_nonneg [of 0 segment] assms(3) by simp
  ultimately show ?thesis
    using swaggerPort_colon [OF assms(1), of "segment @ rest" defaultPort]
      Number_zero [of "digits_value 0 segment"] Number_not_NaN [of "digits_value 0 segment"]
    by simp
qed

lemma swaggerPort_no_colon:
  assumes "CHR '':'' \<notin> set h"
  shows "swaggerPort (Some h) defaultPort = defaultPort"
proof -
  have "parseInt ''undefined'' = NaN"
    by (simp add: parseInt_def white_space_def digit_char_def)
  then show ?thesis
    using assms by (simp add: swaggerPort_def at_index_def split_on_no_sep Let_def)
qed

section \<open>The claims\<close>

text \<open>
  C1, amended. The keys of the exported \<open>paths\<close> object are the path keys of the
  routes. The path key of a route is a slash followed by the endpoint with every
  \<open>:name\<close> replaced by \<open>{name}\<close>, whether or not the endpoint has a parameter. When
  the endpoint contains no text of the form \<open>{name}\<close> itself, the route that import
  builds from that path key and an operation that has its responses, as every exported
  operation has, has the original endpoint. The endpoint \<open>users/:id/orders/:orderId\<close>
  exports to the key \<open>/users/{id}/orders/{orderId}\<close>.
\<close>

theorem path_parameter_round_trip:
  "fst ` set (exportPaths cs env) = (\<lambda>r. exportEndpoint (endpoint r)) ` set (routes env) \<and>
   exportEndpoint e = CHR ''/'' # replace_colon_parameters e \<and>
   (\<not> has_brace_parameter e \<and> operationObject.responses parsedRoute \<noteq> None \<longrightarrow>
      (\<exists>r. newRoute cs version (exportEndpoint e) routeMethod parsedRoute = Inr r \<and>
           endpoint r = e)) \<and>
   (\<not> has_brace_parameter (endpoint exported) \<longrightarrow>
      (\<exists>r. newRoute cs version (exportEndpoint (endpoint exported)) (http_method exported)
             (exportOperation cs env exported) = Inr r \<and>
           endpoint r = endpoint exported)) \<and>
   exportEndpoint ''users/:id/orders/:orderId'' = ''/users/{id}/orders/{orderId}''"
proof -
  have round: "\<exists>r. newRoute cs version (exportEndpoint e) m operation = Inr r \<and> endpoint r = e"
    if nb: "\<not> has_brace_parameter e" and some: "operationObject.responses operation \<noteq> None"
    for e m operation
  proof -
    have "parametersReplace (exportEndpoint e) PATH_PARAMETERS None = Inr (CHR ''/'' # e)"
      using path_round_trip [OF nb, of None]
      by (simp add: exportEndpoint_replace brace_parameter_here_def)
    then have "map_sum id endpoint (newRoute cs version (exportEndpoint e) m operation) = Inr e"
      using newRoute_endpoint [OF some, of cs version "exportEndpoint e" m]
      by (simp add: RemoveLeadingSlash_def)
    then show ?thesis
      by (cases "newRoute cs version (exportEndpoint e) m operation") auto
  qed
  have exported: "operationObject.responses (exportOperation cs env exported) \<noteq> None"
    by (simp add: exportOperation_def)
  show ?thesis
  proof (intro conjI impI)
    show "fst ` set (exportPaths cs env) = (\<lambda>r. exportEndpoint (endpoint r)) ` set (routes env)"
      by (rule exportPaths_keys)
    show "exportEndpoint e = CHR ''/'' # replace_colon_parameters e"
      by (rule exportEndpoint_replace)
    show "\<exists>r. newRoute cs version (exportEndpoint e) routeMethod parsedRoute = Inr r \<and>
              endpoint r = e"
      if "\<not> has_brace_parameter e \<and> operationObject.responses parsedRoute \<noteq> None"
      using that round by blast
    show "\<exists>r. newRoute cs version (exportEndpoint (endpoint exported)) (http_method exported)
               (exportOperation cs env exported) = Inr r \<and>
             endpoint r = endpoint exported"
      if "\<not> has_brace_parameter (endpoint exported)"
      using that round [OF _ exported] by blast
    show "exportEndpoint ''users/:id/orders/:orderId'' = ''/users/{id}/orders/{orderId}''"
      by (simp add: exportEndpoint_def word_char_def)
  qed
qed

theorem path_parameter_round_trip_witness:
  "\<not> has_brace_parameter ''users/:id/orders/:orderId'' \<and>
   operationObject.responses (example_operation []) \<noteq> None \<and>
   (\<exists>r. newRoute example_collaborators OPENAPI_V3 (exportEndpoint ''users/:id/orders/:orderId'')
          ''get'' (example_operation []) = Inr r \<and>
        endpoint r = ''users/:id/orders/:orderId'') \<and>
   (\<exists>r. newRoute example_collaborators OPENAPI_V3 (exportEndpoint ''users/:id/orders/:orderId'')
          ''get''
          (exportOperation example_collaborators (buildEnvironment example_collaborators)
             (example_route ''users/:id/orders/:orderId'')) = Inr r \<and>
        endpoint r = ''users/:id/orders/:orderId'')"
proof -
  have nb: "\<not> has_brace_parameter ''users/:id/orders/:orderId''"
    by (simp add: brace_parameter_here_def)
  have some: "operationObject.responses (example_operation []) \<noteq> None"
    by (simp add: example_operation_def)
  have both: "\<not> has_brace_parameter ''users/:id/orders/:orderId'' \<and>
              operationObject.responses (example_operation []) \<noteq> None"
    using nb some by simp
  have nb': "\<not> has_brace_parameter (endpoint (example_route ''users/:id/orders/:orderId''))"
    using nb by (simp add: example_route_def)
  have a: "\<exists>r. newRoute example_collaborators OPENAPI_V3
              (exportEndpoint ''users/:id/orders/:orderId'') ''get'' (example_operation []) = Inr r \<and>
            endpoint r = ''users/:id/orders/:orderId''"
    by (rule path_parameter_round_trip
          [THEN conjunct2, THEN conjunct2, THEN conjunct1, THEN mp, OF both])
  have "\<exists>r. newRoute example_collaborators OPENAPI_V3
              (exportEndpoint (endpoint (example_route ''users/:id/orders/:orderId'')))
              (http_method (example_route ''users/:id/orders/:orderId''))
              (exportOperation example_collaborators (buildEnvironment example_collaborators)
                 (example_route ''users/:id/orders/:orderId'')) = Inr r \<and>
            endpoint r = endpoint (example_route ''users/:id/orders/:orderId'')"
    by (rule path_parameter_round_trip
          [THEN conjunct2, THEN conjunct2, THEN conjunct2, THEN conjunct1, THEN mp, OF nb'])
  then have b: "\<exists>r. newRoute example_collaborators OPENAPI_V3
          (exportEndpoint ''users/:id/orders/:orderId'') ''get''
          (exportOperation example_collaborators (buildEnvironment example_collaborators)
             (example_route ''users/:id/orders/:orderId'')) = Inr r \<and>
        endpoint r = ''users/:id/orders/:orderId''"
    by (simp add: example_route_def)
  show ?thesis using nb some a b by blast
qed

text \<open>
  The claim as stated fails on an endpoint that contains \<open>{name}\<close>: export leaves
  \<open>items/{id}\<close> as it is, and import reads the key \<open>/items/{id}\<close> as \<open>items/:id\<close>.
\<close>

theorem path_parameter_round_trip_counterexample:
  "exportEndpoint ''items/{id}'' = ''/items/{id}'' \<and>
   map_sum id endpoint
     (newRoute example_collaborators OPENAPI_V3 (exportEndpoint ''items/{id}'') ''get''
        (example_operation [])) = Inr ''items/:id'' \<and>
   map_sum id endpoint
     (newRoute example_collaborators OPENAPI_V3 (exportEndpoint ''items/{id}'') ''get''
        (example_operation [])) \<noteq> Inr ''items/{id}''"
proof -
  have k: "exportEndpoint ''items/{id}'' = ''/items/{id}''"
    by (simp add: exportEndpoint_def)
  have p: "parametersReplace ''/items/{id}'' PATH_PARAMETERS None = Inr ''/items/:id''"
    by (simp add: brace_parameter_here_def replacement_def word_char_def)
  have some: "operationObject.responses (example_operation []) \<noteq> None"
    by (simp add: example_operation_def)
  show ?thesis
    unfolding newRoute_endpoint [OF some] k p by (simp add: RemoveLeadingSlash_def)
qed

text \<open>
  C2. \<open>createRoutes\<close> returns exactly when every operation under a key of \<open>methods\<close>
  has its \<open>responses\<close>; on an operation without them \<open>Object.keys\<close> throws and no
  route is produced. When it returns, every route has at least one response, and so has
  every route of an environment that \<open>import\<close> returns. For every path and every key of
  its path item that is in \<open>methods\<close>, the route built for them is among the routes;
  when no declared response key passes the status test (or none is declared), that route
  has exactly one response, the default one with the header list
  \<open>[{key: "Content-Type", value: "application/json"}]\<close>.
\<close>

theorem non_empty_responses:
  "((\<exists>rs. createRoutes cs parsedAPI version = Inr rs) \<longleftrightarrow> declaresResponses parsedAPI) \<and>
   (createRoutes cs parsedAPI version = Inr rs \<longrightarrow>
      (\<forall>r\<in>set rs. route.responses r \<noteq> []) \<and>
      (\<forall>(routePath, pathItem) \<in> set (paths parsedAPI).
         \<forall>(routeMethod, parsedRoute) \<in> set pathItem.
           routeMethod \<in> set methods \<longrightarrow>
           (\<exists>r\<in>set rs. \<exists>declared.
              operationObject.responses parsedRoute = Some declared \<and>
              newRoute cs version routePath routeMethod parsedRoute = Inr r \<and>
              ((\<forall>(responseStatus, response) \<in> set declared.
                  findStatusCode cs responseStatus = None) \<longrightarrow>
               route.responses r =
                 [(buildRouteResponse cs)
                    \<lparr>routeResponse.headers :=
                       [\<lparr>key = ''Content-Type'', val = ''application/json''\<rparr>]\<rparr>])))) \<and>
   (fst (import cs filePath dereferenced) = Inr (Some env) \<longrightarrow>
      (\<forall>r\<in>set (routes env). route.responses r \<noteq> []))"
proof -
  have nonempty: "\<forall>r\<in>set rs'. route.responses r \<noteq> []"
    if created: "createRoutes cs d v = Inr rs'" for d v rs'
  proof
    fix r
    assume "r \<in> set rs'"
    then obtain routePath routeMethod parsedRoute where
      "newRoute cs v routePath routeMethod parsedRoute = Inr r"
      using createRoutes_source [OF created] by blast
    then show "route.responses r \<noteq> []"
      using newRoute_fields(2) routeResponses_not_Nil by metis
  qed
  have each: "\<exists>r\<in>set rs. \<exists>declared.
                operationObject.responses parsedRoute = Some declared \<and>
                newRoute cs version routePath routeMethod parsedRoute = Inr r \<and>
                ((\<forall>(responseStatus, response) \<in> set declared.
                    findStatusCode cs responseStatus = None) \<longrightarrow>
                 route.responses r =
                   [(buildRouteResponse cs)
                      \<lparr>routeResponse.headers :=
                         [\<lparr>key = ''Content-Type'', val = ''application/json''\<rparr>]\<rparr>])"
    if c: "createRoutes cs parsedAPI version = Inr rs"
      and p: "(routePath, pathItem) \<in> set (paths parsedAPI)"
      and m: "(routeMethod, parsedRoute) \<in> set pathItem" "routeMethod \<in> set methods"
    for routePath pathItem routeMethod parsedRoute
  proof -
    obtain r declared where r: "r \<in> set rs"
        "operationObject.responses parsedRoute = Some declared"
        "newRoute cs version routePath routeMethod parsedRoute = Inr r"
        "route.responses r = routeResponses cs version parsedRoute declared"
      using createRoutes_member [OF c p m] by blast
    have "route.responses r =
            [(buildRouteResponse cs)
               \<lparr>routeResponse.headers :=
                  [\<lparr>key = ''Content-Type'', val = ''application/json''\<rparr>]\<rparr>]"
      if none: "\<forall>(responseStatus, response) \<in> set declared. findStatusCode cs responseStatus = None"
      using keptResponses_Nil [OF none, of version parsedRoute] r(4)
      by (simp add: routeResponses_eq defaultResponse_def)
    then show ?thesis using r by blast
  qed
  have imported: "\<forall>r\<in>set (routes env). route.responses r \<noteq> []"
    if imported_env: "fst (import cs filePath dereferenced) = Inr (Some env)"
    using import_routes [OF imported_env] nonempty by blast
  show ?thesis
    using createRoutes_returns [of cs parsedAPI version] nonempty [of parsedAPI version rs]
      each imported
    by blast
qed

theorem non_empty_responses_witness:
  "createRoutes example_collaborators
     (example_document
        [(''/users/{id}'',
          [(''get'',
            example_operation [(''2XX'', example_response), (''default'', example_response)])])])
     OPENAPI_V3 =
     Inr [\<lparr>documentation = ''Read a user'', http_method = ''get'', endpoint = ''users/:id'',
           route.responses =
             [\<lparr>statusCode = 200, label = [], body = ''{}'',
               routeResponse.headers =
                 [\<lparr>key = ''Content-Type'', val = ''application/json''\<rparr>]\<rparr>]\<rparr>] \<and>
   map_sum id (map_option (\<lambda>env. map (\<lambda>r. length (route.responses r)) (routes env)))
     (fst (import example_collaborators ''users.json''
             (Inr (example_document
                     [(''/users/{id}'',
                       [(''get'',
                         example_operation
                           [(''2XX'', example_response),
                            (''default'', example_response)])])])))) =
     Inr (Some [1])"
proof -
  let ?op = "example_operation [(''2XX'', example_response), (''default'', example_response)]"
  let ?doc = "example_document [(''/users/{id}'', [(''get'', ?op)])]"
  let ?default =
    "(buildRouteResponse example_collaborators)
       \<lparr>routeResponse.headers := [\<lparr>key = ''Content-Type'', val = ''application/json''\<rparr>]\<rparr>"
  have ready: "declaresResponses ?doc"
    by (simp add: declaresResponses_def example_document_def example_operation_def)
  then obtain rs where rs: "createRoutes example_collaborators ?doc OPENAPI_V3 = Inr rs"
    using non_empty_responses [THEN conjunct1, of example_collaborators ?doc OPENAPI_V3]
    by blast
  have methods: "map http_method rs = [''get'']"
    using createRoutes_methods [OF rs] by (simp add: example_document_def methods_def)
  then obtain r where one: "rs = [r]"
    by (cases rs) auto
  have p: "(''/users/{id}'', [(''get'', ?op)]) \<in> set (paths ?doc)"
    by (simp add: example_document_def)
  have m: "''get'' \<in> set methods"
    by (simp add: methods_def)
  have filtered:
    "\<forall>(responseStatus, response) \<in> set [(''2XX'', example_response), (''default'', example_response)].
       findStatusCode example_collaborators responseStatus = None"
    by (simp add: findStatusCode_def parseInt_def white_space_def digit_char_def
          digit_value_def Number_small example_collaborators_def)
  have all:
    "\<forall>(routePath, pathItem) \<in> set (paths ?doc).
       \<forall>(routeMethod, parsedRoute) \<in> set pathItem.
         routeMethod \<in> set methods \<longrightarrow>
         (\<exists>r\<in>set rs. \<exists>declared.
            operationObject.responses parsedRoute = Some declared \<and>
            newRoute example_collaborators OPENAPI_V3 routePath routeMethod parsedRoute = Inr r \<and>
            ((\<forall>(responseStatus, response) \<in> set declared.
                findStatusCode example_collaborators responseStatus = None) \<longrightarrow>
             route.responses r = [?default]))"
    using non_empty_responses
      [THEN conjunct2, THEN conjunct1, THEN mp, OF rs, THEN conjunct2] .
  have "\<forall>(routeMethod, parsedRoute) \<in> set [(''get'', ?op)].
         routeMethod \<in> set methods \<longrightarrow>
         (\<exists>r\<in>set rs. \<exists>declared.
            operationObject.responses parsedRoute = Some declared \<and>
            newRoute example_collaborators OPENAPI_V3 ''/users/{id}'' routeMethod parsedRoute =
              Inr r \<and>
            ((\<forall>(responseStatus, response) \<in> set declared.
                findStatusCode example_collaborators responseStatus = None) \<longrightarrow>
             route.responses r = [?default]))"
    using bspec [OF all p] by simp
  then obtain declared where r:
    "operationObject.responses ?op = Some declared"
    "newRoute example_collaborators OPENAPI_V3 ''/users/{id}'' ''get'' ?op = Inr r"
    "(\<forall>(responseStatus, response) \<in> set declared.
        findStatusCode example_collaborators responseStatus = None) \<longrightarrow>
     route.responses r = [?default]"
    using m one by auto
  have "declared = [(''2XX'', example_response), (''default'', example_response)]"
    using r(1) by (simp add: example_operation_def)
  then have responses: "route.responses r = [?default]"
    using r(3) filtered by simp
  have replaced: "parametersReplace ''/users/{id}'' PATH_PARAMETERS None = Inr ''/users/:id''"
    by (simp add: brace_parameter_here_def replacement_def word_char_def)
  have built:
    "newRoute example_collaborators OPENAPI_V3 ''/users/{id}'' ''get'' ?op =
       Inr \<lparr>documentation = ''Read a user'', http_method = ''get'', endpoint = ''users/:id'',
            route.responses =
              routeResponses example_collaborators OPENAPI_V3 ?op
                [(''2XX'', example_response), (''default'', example_response)]\<rparr>"
    unfolding newRoute_def replaced
    by (simp add: example_operation_def Let_def RemoveLeadingSlash_def or_else_def
          example_collaborators_def)
  have shape:
    "r = \<lparr>documentation = ''Read a user'', http_method = ''get'', endpoint = ''users/:id'',
           route.responses =
             routeResponses example_collaborators OPENAPI_V3 ?op
               [(''2XX'', example_response), (''default'', example_response)]\<rparr>"
    using r(2) unfolding built by simp
  have "routeResponses example_collaborators OPENAPI_V3 ?op
          [(''2XX'', example_response), (''default'', example_response)] = [?default]"
    using responses unfolding shape by simp
  then have routes_eq:
    "createRoutes example_collaborators ?doc OPENAPI_V3 =
       Inr [\<lparr>documentation = ''Read a user'', http_method = ''get'', endpoint = ''users/:id'',
             route.responses =
               [\<lparr>statusCode = 200, label = [], body = ''{}'',
                 routeResponse.headers =
                   [\<lparr>key = ''Content-Type'', val = ''application/json''\<rparr>]\<rparr>]\<rparr>]"
    unfolding rs one shape by (simp add: example_collaborators_def)
  let ?env =
    "(buildEnvironment example_collaborators)
       \<lparr>endpointPrefix := None, environment.name := ''Users'', routes := rs\<rparr>"
  have fields: "servers ?doc = None" "info_title ?doc = Some ''Users''"
    "swagger ?doc = None" "openapi ?doc = Some ''3.0.1''"
    by (simp_all add: example_document_def)
  have converted: "convertFromOpenAPIV3 example_collaborators ?doc = Inr ?env"
    unfolding convertFromOpenAPIV3_def
    by (simp add: fields rs serverPrefix_def Let_def or_else_def)
  have imported:
    "fst (import example_collaborators ''users.json'' (Inr ?doc)) = Inr (Some ?env)"
    unfolding import_def import_body_def isSwagger_def isOpenAPIV3_def
    by (simp add: fields converted)
  have "\<forall>r\<in>set (routes ?env). route.responses r \<noteq> []"
    by (rule non_empty_responses [THEN conjunct2, THEN conjunct2, THEN mp, OF imported])
  then have "route.responses r \<noteq> []"
    by (simp add: one)
  then have "length (route.responses r) = 1"
    using responses by simp
  then have "map_sum id (map_option (\<lambda>env. map (\<lambda>r. length (route.responses r)) (routes env)))
     (fst (import example_collaborators ''users.json'' (Inr ?doc))) = Inr (Some [1])"
    unfolding imported by (simp add: one)
  then show ?thesis
    using routes_eq by simp
qed

text \<open>
  C3, amended. The responses of a route are those of the declared keys that pass the
  status test, in the order of the keys, each with the description and headers of its own
  response object, or the one default response when no key passes; and the routes of
  \<open>createRoutes\<close> hold such a route for every operation under a key of \<open>methods\<close>. A
  key passes when \<open>parseInt(key, 10)\<close> is one of the supported codes, and the status
  code of its response is that integer: \<open>parseInt\<close> skips leading white space, reads a
  sign and the longest run of digits, and ignores what follows. So the decimal numeral of
  a supported code passes; \<open>default\<close> and \<open>abc\<close> read as \<open>NaN\<close> and \<open>2XX\<close> as 2,
  which pass no test when 2 is not a supported code; and \<open>200 OK\<close> reads as 200.
\<close>

theorem status_code_filtering:
  "(newRoute cs version routePath routeMethod parsedRoute = Inr r \<longrightarrow>
      (\<exists>declared.
         operationObject.responses parsedRoute = Some declared \<and>
         route.responses r =
           (let kept =
              List.map_filter
                (\<lambda>(responseStatus, response).
                   map_option (\<lambda>code. pushedResponse cs version parsedRoute code response)
                     (findStatusCode cs responseStatus))
                declared
            in if kept = []
               then [(buildRouteResponse cs)
                       \<lparr>routeResponse.headers :=
                          [\<lparr>key = ''Content-Type'', val = ''application/json''\<rparr>]\<rparr>]
               else kept))) \<and>
   (createRoutes cs parsedAPI version = Inr rs \<longrightarrow>
      (\<forall>(path, pathItem) \<in> set (paths parsedAPI).
         \<forall>(m, operation) \<in> set pathItem.
           m \<in> set methods \<longrightarrow>
           (\<exists>r'\<in>set rs. newRoute cs version path m operation = Inr r')) \<and>
      (\<forall>r'\<in>set rs.
         \<exists>path pathItem m operation.
           (path, pathItem) \<in> set (paths parsedAPI) \<and> (m, operation) \<in> set pathItem \<and>
           m \<in> set methods \<and> newRoute cs version path m operation = Inr r')) \<and>
   statusCode (pushedResponse cs version parsedRoute code response) = code \<and>
   label (pushedResponse cs version parsedRoute code response) =
     or_else (responseObject.description response) [] \<and>
   findStatusCode cs responseStatus =
     (case parseInt responseStatus of
        Finite n \<Rightarrow> if n \<in> set (statusCodes cs) then Some n else None
      | _ \<Rightarrow> None) \<and>
   (code \<in> set (statusCodes cs) \<and> \<bar>code\<bar> < 2 ^ 53 \<longrightarrow>
      findStatusCode cs (toString cs (Finite code)) = Some code) \<and>
   (2 \<notin> set (statusCodes cs) \<longrightarrow> findStatusCode cs ''2XX'' = None) \<and>
   findStatusCode cs ''default'' = None \<and>
   findStatusCode cs ''abc'' = None \<and>
   parseInt ''200 OK'' = Finite 200"
proof -
  have link: "\<exists>declared.
         operationObject.responses parsedRoute = Some declared \<and>
         route.responses r =
           (let kept =
              List.map_filter
                (\<lambda>(responseStatus, response).
                   map_option (\<lambda>code. pushedResponse cs version parsedRoute code response)
                     (findStatusCode cs responseStatus))
                declared
            in if kept = []
               then [(buildRouteResponse cs)
                       \<lparr>routeResponse.headers :=
                          [\<lparr>key = ''Content-Type'', val = ''application/json''\<rparr>]\<rparr>]
               else kept)"
    if built: "newRoute cs version routePath routeMethod parsedRoute = Inr r"
  proof -
    obtain declared where d: "operationObject.responses parsedRoute = Some declared"
        "route.responses r = routeResponses cs version parsedRoute declared"
      using newRoute_fields(2) [OF built] by blast
    show ?thesis
      using d
      by (simp add: routeResponses_eq keptResponses_def defaultResponse_def Let_def)
  qed
  have member: "\<forall>(path, pathItem) \<in> set (paths parsedAPI).
         \<forall>(m, operation) \<in> set pathItem.
           m \<in> set methods \<longrightarrow>
           (\<exists>r'\<in>set rs. newRoute cs version path m operation = Inr r')"
    if created: "createRoutes cs parsedAPI version = Inr rs"
    using createRoutes_member [OF created] by blast
  have origin: "\<forall>r'\<in>set rs.
         \<exists>path pathItem m operation.
           (path, pathItem) \<in> set (paths parsedAPI) \<and> (m, operation) \<in> set pathItem \<and>
           m \<in> set methods \<and> newRoute cs version path m operation = Inr r'"
    if created: "createRoutes cs parsedAPI version = Inr rs"
    using createRoutes_source [OF created] by blast
  have code: "statusCode (pushedResponse cs version parsedRoute code response) = code"
    by (simp add: pushedResponse_def)
  have label: "label (pushedResponse cs version parsedRoute code response) =
     or_else (responseObject.description response) []"
    by (simp add: pushedResponse_def)
  have test: "findStatusCode cs responseStatus =
     (case parseInt responseStatus of
        Finite n \<Rightarrow> if n \<in> set (statusCodes cs) then Some n else None
      | _ \<Rightarrow> None)"
    by (rule findStatusCode_eq)
  have numeral: "findStatusCode cs (toString cs (Finite code)) = Some code"
    if "code \<in> set (statusCodes cs) \<and> \<bar>code\<bar> < 2 ^ 53"
    using that by (simp add: findStatusCode_eq parseInt_toString)
  have two: "parseInt ''2XX'' = Finite 2"
    by (simp add: parseInt_def white_space_def digit_char_def digit_value_def Number_small)
  have range: "findStatusCode cs ''2XX'' = None" if "2 \<notin> set (statusCodes cs)"
    using that by (simp add: findStatusCode_eq two)
  have "parseInt ''default'' = NaN"
    by (simp add: parseInt_def white_space_def digit_char_def)
  then have default: "findStatusCode cs ''default'' = None"
    by (simp add: findStatusCode_eq)
  have "parseInt ''abc'' = NaN"
    by (simp add: parseInt_def white_space_def digit_char_def)
  then have abc: "findStatusCode cs ''abc'' = None"
    by (simp add: findStatusCode_eq)
  have ok: "parseInt ''200 OK'' = Finite 200"
    by (simp add: parseInt_def white_space_def digit_char_def digit_value_def Number_small)
  show ?thesis
    using link member origin code label test numeral range default abc ok
    by (intro conjI impI) blast+
qed

theorem status_code_filtering_witness:
  "createRoutes example_collaborators
     (example_document
        [(''/users/{id}'',
          [(''get'',
            example_operation
              [(''2XX'', example_response), (''404'', example_response),
               (''default'', example_response)])])])
     OPENAPI_V3 =
     Inr [\<lparr>documentation = ''Read a user'', http_method = ''get'', endpoint = ''users/:id'',
           route.responses =
             [\<lparr>statusCode = 404, label = ''A user'', body = [],
               routeResponse.headers =
                 [\<lparr>key = ''Content-Type'', val = ''application/json''\<rparr>]\<rparr>]\<rparr>] \<and>
   findStatusCode example_collaborators (toString example_collaborators (Finite 404)) =
     Some 404 \<and>
   findStatusCode example_collaborators ''2XX'' = None"
proof -
  let ?declared =
    "[(''2XX'', example_response), (''404'', example_response), (''default'', example_response)]"
  let ?op = "example_operation ?declared"
  let ?doc = "example_document [(''/users/{id}'', [(''get'', ?op)])]"
  have "declaresResponses ?doc"
    by (simp add: declaresResponses_def example_document_def example_operation_def)
  then obtain rs where rs: "createRoutes example_collaborators ?doc OPENAPI_V3 = Inr rs"
    using createRoutes_returns by blast
  have "map http_method rs = [''get'']"
    using createRoutes_methods [OF rs] by (simp add: example_document_def methods_def)
  then obtain r where one: "rs = [r]"
    by (cases rs) auto
  note facts =
    status_code_filtering
      [of example_collaborators OPENAPI_V3 "''/users/{id}''" "''get''" ?op r ?doc rs
          404 example_response "[]"]
  have member:
    "\<forall>(path, pathItem) \<in> set (paths ?doc).
       \<forall>(m, operation) \<in> set pathItem.
         m \<in> set methods \<longrightarrow>
         (\<exists>r'\<in>set rs. newRoute example_collaborators OPENAPI_V3 path m operation = Inr r')"
    by (rule facts [THEN conjunct2, THEN conjunct1, THEN mp, OF rs, THEN conjunct1])
  have p: "(''/users/{id}'', [(''get'', ?op)]) \<in> set (paths ?doc)"
    by (simp add: example_document_def)
  have m: "''get'' \<in> set methods"
    by (simp add: methods_def)
  have "\<forall>(m, operation) \<in> set [(''get'', ?op)].
         m \<in> set methods \<longrightarrow>
         (\<exists>r'\<in>set rs.
            newRoute example_collaborators OPENAPI_V3 ''/users/{id}'' m operation = Inr r')"
    using bspec [OF member p] by simp
  then have built:
    "newRoute example_collaborators OPENAPI_V3 ''/users/{id}'' ''get'' ?op = Inr r"
    using m one by auto
  have a: "(404::int) \<in> set (statusCodes example_collaborators) \<and> \<bar>404::int\<bar> < 2 ^ 53"
    and b: "(2::int) \<notin> set (statusCodes example_collaborators)"
    by (simp_all add: example_collaborators_def)
  have supported:
    "findStatusCode example_collaborators (toString example_collaborators (Finite 404)) =
       Some 404"
    by (rule facts [THEN conjunct2, THEN conjunct2, THEN conjunct2, THEN conjunct2,
          THEN conjunct2, THEN conjunct1, THEN mp, OF a])
  have range: "findStatusCode example_collaborators ''2XX'' = None"
    by (rule facts [THEN conjunct2, THEN conjunct2, THEN conjunct2, THEN conjunct2,
          THEN conjunct2, THEN conjunct2, THEN conjunct1, THEN mp, OF b])
  have default: "findStatusCode example_collaborators ''default'' = None"
    by (rule facts [THEN conjunct2, THEN conjunct2, THEN conjunct2, THEN conjunct2,
          THEN conjunct2, THEN conjunct2, THEN conjunct2, THEN conjunct1])
  have numeral: "toString example_collaborators (Finite 404) = ''404''"
    by (simp add: toString_def decimal.simps)
  obtain declared where d: "operationObject.responses ?op = Some declared"
    "route.responses r =
           (let kept =
              List.map_filter
                (\<lambda>(responseStatus, response).
                   map_option
                     (\<lambda>code. pushedResponse example_collaborators OPENAPI_V3 ?op code response)
                     (findStatusCode example_collaborators responseStatus))
                declared
            in if kept = []
               then [(buildRouteResponse example_collaborators)
                       \<lparr>routeResponse.headers :=
                          [\<lparr>key = ''Content-Type'', val = ''application/json''\<rparr>]\<rparr>]
               else kept)"
    using facts [THEN conjunct1, THEN mp, OF built] by blast
  have "declared = ?declared"
    using d(1) by (simp add: example_operation_def)
  then have responses: "route.responses r =
     [\<lparr>statusCode = 404, label = ''A user'', body = [],
       routeResponse.headers = [\<lparr>key = ''Content-Type'', val = ''application/json''\<rparr>]\<rparr>]"
    using d(2) supported [unfolded numeral] range default
    by (simp add: List.map_filter_simps pushedResponse_def example_collaborators_def
          example_response_def or_else_def buildResponseHeaders_def buildHeader_def
          contentTypeHeaders_def Let_def)
  have replaced: "parametersReplace ''/users/{id}'' PATH_PARAMETERS None = Inr ''/users/:id''"
    by (simp add: brace_parameter_here_def replacement_def word_char_def)
  have evaluated:
    "newRoute example_collaborators OPENAPI_V3 ''/users/{id}'' ''get'' ?op =
       Inr \<lparr>documentation = ''Read a user'', http_method = ''get'', endpoint = ''users/:id'',
            route.responses =
              routeResponses example_collaborators OPENAPI_V3 ?op ?declared\<rparr>"
    unfolding newRoute_def replaced
    by (simp add: example_operation_def Let_def RemoveLeadingSlash_def or_else_def
          example_collaborators_def)
  have shape:
    "r = \<lparr>documentation = ''Read a user'', http_method = ''get'', endpoint = ''users/:id'',
           route.responses =
             routeResponses example_collaborators OPENAPI_V3 ?op ?declared\<rparr>"
    using built unfolding evaluated by simp
  have "routeResponses example_collaborators OPENAPI_V3 ?op ?declared =
     [\<lparr>statusCode = 404, label = ''A user'', body = [],
       routeResponse.headers = [\<lparr>key = ''Content-Type'', val = ''application/json''\<rparr>]\<rparr>]"
    using responses unfolding shape by simp
  then have "createRoutes example_collaborators ?doc OPENAPI_V3 =
     Inr [\<lparr>documentation = ''Read a user'', http_method = ''get'', endpoint = ''users/:id'',
           route.responses =
             [\<lparr>statusCode = 404, label = ''A user'', body = [],
               routeResponse.headers =
                 [\<lparr>key = ''Content-Type'', val = ''application/json''\<rparr>]\<rparr>]\<rparr>]"
    unfolding rs one shape by simp
  then show ?thesis
    using supported range by simp
qed

text \<open>
  The claim as stated fails on a key that starts with a supported code without being
  its numeral: \<open>200 OK\<close> is none of the numerals of the supported codes, and the route
  has a response with status code 200 for it.
\<close>

theorem status_code_filtering_counterexample:
  "''200 OK'' \<notin>
     set (map (\<lambda>code. toString example_collaborators (Finite code))
            (statusCodes example_collaborators)) \<and>
   createRoutes example_collaborators
     (example_document
        [(''/users/{id}'', [(''get'', example_operation [(''200 OK'', example_response)])])])
     OPENAPI_V3 =
     Inr [\<lparr>documentation = ''Read a user'', http_method = ''get'', endpoint = ''users/:id'',
           route.responses =
             [\<lparr>statusCode = 200, label = ''A user'', body = [],
               routeResponse.headers =
                 [\<lparr>key = ''Content-Type'', val = ''application/json''\<rparr>]\<rparr>]\<rparr>]"
proof
  show "''200 OK'' \<notin>
     set (map (\<lambda>code. toString example_collaborators (Finite code))
            (statusCodes example_collaborators))"
    by (simp add: example_collaborators_def toString_def decimal.simps)
  have "parseInt ''200 OK'' = Finite 200"
    by (simp add: parseInt_def white_space_def digit_char_def digit_value_def Number_small)
  then have passes: "findStatusCode example_collaborators ''200 OK'' = Some 200"
    by (simp add: findStatusCode_def example_collaborators_def)
  have replaced: "parametersReplace ''/users/{id}'' PATH_PARAMETERS None = Inr ''/users/:id''"
    by (simp add: brace_parameter_here_def replacement_def word_char_def)
  have responses:
    "routeResponses example_collaborators OPENAPI_V3
       (example_operation [(''200 OK'', example_response)]) [(''200 OK'', example_response)] =
     [\<lparr>statusCode = 200, label = ''A user'', body = [],
       routeResponse.headers = [\<lparr>key = ''Content-Type'', val = ''application/json''\<rparr>]\<rparr>]"
    unfolding routeResponses_def routeResponses_loop.simps passes
    by (simp add: pushedResponse_def example_collaborators_def
          example_response_def or_else_def buildResponseHeaders_def buildHeader_def
          contentTypeHeaders_def Let_def)
  have built:
    "newRoute example_collaborators OPENAPI_V3 ''/users/{id}'' ''get''
       (example_operation [(''200 OK'', example_response)]) =
     Inr \<lparr>documentation = ''Read a user'', http_method = ''get'', endpoint = ''users/:id'',
          route.responses =
            [\<lparr>statusCode = 200, label = ''A user'', body = [],
              routeResponse.headers =
                [\<lparr>key = ''Content-Type'', val = ''application/json''\<rparr>]\<rparr>]\<rparr>"
    unfolding newRoute_def replaced
    by (simp add: example_operation_def Let_def RemoveLeadingSlash_def or_else_def
          example_collaborators_def
          responses [unfolded example_operation_def example_collaborators_def])
  show "createRoutes example_collaborators
     (example_document
        [(''/users/{id}'', [(''get'', example_operation [(''200 OK'', example_response)])])])
     OPENAPI_V3 =
     Inr [\<lparr>documentation = ''Read a user'', http_method = ''get'', endpoint = ''users/:id'',
           route.responses =
             [\<lparr>statusCode = 200, label = ''A user'', body = [],
               routeResponse.headers =
                 [\<lparr>key = ''Content-Type'', val = ''application/json''\<rparr>]\<rparr>]\<rparr>]"
    unfolding createRoutes_def
    by (simp add: example_document_def methods_def built)
qed

text \<open>
  C4. \<open>export\<close> does not contain the failure of the validation that it attempts to
  contain. The call of \<open>SwaggerParser.validate\<close> stands in a \<open>try\<close> whose \<open>catch\<close>
  logs the error, but the promise it returns is not awaited: when the promise is
  rejected, \<open>export\<close> has returned the text of the document, nothing has been logged and
  no toast shown, and the rejection is left without a handler. Only an exception of
  \<open>JSON.stringify\<close> reaches the \<open>catch\<close> of \<open>export\<close>, which answers it with the
  error toast and the log line. An environment with the endpoint \<open>a/:id/b/:id\<close> is
  exported with two equal parameter entries, which the validator refuses.
\<close>

theorem export_validation_unhandled:
  "fst (export cs env) =
     (case stringify cs (openAPIEnvironment cs env) of
        Inr result \<Rightarrow> Inr (Some result)
      | Inl e \<Rightarrow> Inr None) \<and>
   snd (export cs env) =
     logger_info Starting_export #
     (case stringify cs (openAPIEnvironment cs env) of
        Inr result \<Rightarrow> []
      | Inl e \<Rightarrow> [addToast Error (EXPORT_ERROR e), logger_error (Error_while_exporting e)]) @
     (case validate cs (openAPIEnvironment cs env) of
        Some e \<Rightarrow> [unhandledRejection e]
      | None \<Rightarrow> []) \<and>
   export (example_collaborators \<lparr>validate := example_validate\<rparr>)
     ((buildEnvironment example_collaborators)
        \<lparr>routes :=
           [(example_route ''a/:id/b/:id'')
              \<lparr>route.responses := [buildRouteResponse example_collaborators]\<rparr>]\<rparr>) =
     (Inr (Some []),
      [logger_info Starting_export, unhandledRejection (Failure ''uniqueItems'')]) \<and>
   export (example_collaborators \<lparr>validate := example_validate\<rparr>)
     ((buildEnvironment example_collaborators)
        \<lparr>routes :=
           [(example_route ''a/:id/b/:name'')
              \<lparr>route.responses := [buildRouteResponse example_collaborators]\<rparr>]\<rparr>) =
     (Inr (Some []), [logger_info Starting_export])"
proof (intro conjI)
  show "fst (export cs env) =
     (case stringify cs (openAPIEnvironment cs env) of
        Inr result \<Rightarrow> Inr (Some result)
      | Inl e \<Rightarrow> Inr None)"
    by (simp add: export_def convertToOpenAPIV3_def Let_def split: sum.splits)
  show "snd (export cs env) =
     logger_info Starting_export #
     (case stringify cs (openAPIEnvironment cs env) of
        Inr result \<Rightarrow> []
      | Inl e \<Rightarrow> [addToast Error (EXPORT_ERROR e), logger_error (Error_while_exporting e)]) @
     (case validate cs (openAPIEnvironment cs env) of
        Some e \<Rightarrow> [unhandledRejection e]
      | None \<Rightarrow> [])"
    by (simp add: export_def convertToOpenAPIV3_def Let_def split: sum.splits)
  have twice: "paths (openAPIEnvironment cs'
          ((buildEnvironment example_collaborators)
             \<lparr>routes :=
                [(example_route ''a/:id/b/:id'')
                   \<lparr>route.responses := [buildRouteResponse example_collaborators]\<rparr>]\<rparr>)) =
        [(''/a/{id}/b/{id}'',
          [(''get'',
            exportOperation cs'
              ((buildEnvironment example_collaborators)
                 \<lparr>routes :=
                    [(example_route ''a/:id/b/:id'')
                       \<lparr>route.responses := [buildRouteResponse example_collaborators]\<rparr>]\<rparr>)
              ((example_route ''a/:id/b/:id'')
                 \<lparr>route.responses := [buildRouteResponse example_collaborators]\<rparr>))])]"
    for cs'
    by (simp add: openAPIEnvironment_def exportPaths_def pathsReducer_def exportEndpoint_def
          example_route_def word_char_def Let_def)
  have entries: "parameters (exportOperation cs' env'
                   ((example_route ''a/:id/b/:id'') \<lparr>route.responses := rs\<rparr>)) =
     Some [\<lparr>name = ''id'', param_in = ''path'', schema_type = ''string'', required = True\<rparr>,
           \<lparr>name = ''id'', param_in = ''path'', schema_type = ''string'', required = True\<rparr>]"
    for cs' env' rs
    by (simp add: exportOperation_def exportParameters_map example_route_def word_char_def)
  have refused: "example_validate
     (openAPIEnvironment cs'
        ((buildEnvironment example_collaborators)
           \<lparr>routes :=
              [(example_route ''a/:id/b/:id'')
                 \<lparr>route.responses := [buildRouteResponse example_collaborators]\<rparr>]\<rparr>)) =
     Some (Failure ''uniqueItems'')" for cs'
    unfolding example_validate_def twice by (simp add: entries)
  show "export (example_collaborators \<lparr>validate := example_validate\<rparr>)
     ((buildEnvironment example_collaborators)
        \<lparr>routes :=
           [(example_route ''a/:id/b/:id'')
              \<lparr>route.responses := [buildRouteResponse example_collaborators]\<rparr>]\<rparr>) =
     (Inr (Some []),
      [logger_info Starting_export, unhandledRejection (Failure ''uniqueItems'')])"
    unfolding export_def convertToOpenAPIV3_def Let_def
    by (simp add: refused) (simp add: example_collaborators_def)
  have once: "paths (openAPIEnvironment cs'
          ((buildEnvironment example_collaborators)
             \<lparr>routes :=
                [(example_route ''a/:id/b/:name'')
                   \<lparr>route.responses := [buildRouteResponse example_collaborators]\<rparr>]\<rparr>)) =
        [(''/a/{id}/b/{name}'',
          [(''get'',
            exportOperation cs'
              ((buildEnvironment example_collaborators)
                 \<lparr>routes :=
                    [(example_route ''a/:id/b/:name'')
                       \<lparr>route.responses := [buildRouteResponse example_collaborators]\<rparr>]\<rparr>)
              ((example_route ''a/:id/b/:name'')
                 \<lparr>route.responses := [buildRouteResponse example_collaborators]\<rparr>))])]"
    for cs'
    by (simp add: openAPIEnvironment_def exportPaths_def pathsReducer_def exportEndpoint_def
          example_route_def word_char_def Let_def)
  have distinct_entries: "parameters (exportOperation cs' env'
                   ((example_route ''a/:id/b/:name'') \<lparr>route.responses := rs\<rparr>)) =
     Some [\<lparr>name = ''id'', param_in = ''path'', schema_type = ''string'', required = True\<rparr>,
           \<lparr>name = ''name'', param_in = ''path'', schema_type = ''string'', required = True\<rparr>]"
    for cs' env' rs
    by (simp add: exportOperation_def exportParameters_map example_route_def word_char_def)
  have accepted: "example_validate
     (openAPIEnvironment cs'
        ((buildEnvironment example_collaborators)
           \<lparr>routes :=
              [(example_route ''a/:id/b/:name'')
                 \<lparr>route.responses := [buildRouteResponse example_collaborators]\<rparr>]\<rparr>)) =
     None" for cs'
    unfolding example_validate_def once by (simp add: distinct_entries)
  show "export (example_collaborators \<lparr>validate := example_validate\<rparr>)
     ((buildEnvironment example_collaborators)
        \<lparr>routes :=
           [(example_route ''a/:id/b/:name'')
              \<lparr>route.responses := [buildRouteResponse example_collaborators]\<rparr>]\<rparr>) =
     (Inr (Some []), [logger_info Starting_export])"
    unfolding export_def convertToOpenAPIV3_def Let_def
    by (simp add: accepted) (simp add: example_collaborators_def)
qed

text \<open>
  C5, amended. \<open>createRoutes\<close> returns exactly when every operation under a key of
  \<open>methods\<close> has its \<open>responses\<close>, and throws a \<open>TypeError\<close> otherwise, so that no
  route at all is produced. When it returns, it has built one route for each key of a
  path item that is, letter for letter, one of \<open>get\<close>, \<open>post\<close>, \<open>put\<close>, \<open>patch\<close>,
  \<open>delete\<close>, \<open>head\<close>, \<open>options\<close>, in the order of the paths and of their keys, with
  that key as its method; every other key yields no route.
\<close>

theorem method_whitelist:
  "((\<exists>rs. createRoutes cs parsedAPI version = Inr rs) \<longleftrightarrow> declaresResponses parsedAPI) \<and>
   (\<not> declaresResponses parsedAPI \<longrightarrow>
      createRoutes cs parsedAPI version = Inl (TypeError ''responses'')) \<and>
   (createRoutes cs parsedAPI version = Inr rs \<longrightarrow>
      map http_method rs =
        concat (map (\<lambda>(routePath, pathItem).
                       filter (\<lambda>m. m \<in> set methods) (map fst pathItem))
                  (paths parsedAPI)))"
proof (intro conjI impI)
  show "(\<exists>rs. createRoutes cs parsedAPI version = Inr rs) \<longleftrightarrow> declaresResponses parsedAPI"
    by (rule createRoutes_returns)
  show "createRoutes cs parsedAPI version = Inl (TypeError ''responses'')"
    if "\<not> declaresResponses parsedAPI"
    using that by (simp add: createRoutes_eq)
  show "map http_method rs =
        concat (map (\<lambda>(routePath, pathItem).
                       filter (\<lambda>m. m \<in> set methods) (map fst pathItem))
                  (paths parsedAPI))"
    if created: "createRoutes cs parsedAPI version = Inr rs"
    by (rule createRoutes_methods [OF created])
qed

theorem method_whitelist_witness:
  "map_sum id (map http_method)
     (createRoutes example_collaborators
        (example_document
           [(''/users'',
             [(''get'', example_operation []), (''trace'', example_operation []),
              (''post'', example_operation [])])])
        OPENAPI_V3) =
     Inr [''get'', ''post''] \<and>
   createRoutes example_collaborators
     (example_document
        [(''/users'',
          [(''get'', (example_operation []) \<lparr>operationObject.responses := None\<rparr>)])])
     OPENAPI_V3 =
     Inl (TypeError ''responses'')"
proof
  let ?doc =
    "example_document
       [(''/users'',
         [(''get'', example_operation []), (''trace'', example_operation []),
          (''post'', example_operation [])])]"
  let ?bad =
    "example_document
       [(''/users'',
         [(''get'', (example_operation []) \<lparr>operationObject.responses := None\<rparr>)])]"
  have "declaresResponses ?doc"
    by (simp add: declaresResponses_def example_document_def example_operation_def)
  then obtain rs where rs: "createRoutes example_collaborators ?doc OPENAPI_V3 = Inr rs"
    using method_whitelist [THEN conjunct1, of example_collaborators ?doc OPENAPI_V3]
    by blast
  have "map http_method rs =
        concat (map (\<lambda>(routePath, pathItem).
                       filter (\<lambda>m. m \<in> set methods) (map fst pathItem))
                  (paths ?doc))"
    by (rule method_whitelist [THEN conjunct2, THEN conjunct2, THEN mp, OF rs])
  then have "map http_method rs = [''get'', ''post'']"
    by (simp add: example_document_def methods_def)
  then show "map_sum id (map http_method) (createRoutes example_collaborators ?doc OPENAPI_V3) =
     Inr [''get'', ''post'']"
    by (simp add: rs)
  have "\<not> declaresResponses ?bad"
    by (simp add: declaresResponses_def example_document_def example_operation_def
          methods_def)
  then show "createRoutes example_collaborators ?bad OPENAPI_V3 = Inl (TypeError ''responses'')"
    by (rule method_whitelist
          [THEN conjunct2, THEN conjunct1, THEN mp,
           of ?bad example_collaborators OPENAPI_V3])
qed

text \<open>
  The claim as stated fails on a key in capitals: \<open>GET\<close> equals \<open>get\<close> when the case
  is ignored, and no route is built for it.
\<close>

theorem method_whitelist_counterexample:
  "toLowerCase ''GET'' \<in> set methods \<and>
   createRoutes example_collaborators
     (example_document [(''/users'', [(''GET'', example_operation [])])]) OPENAPI_V3 = Inr []"
  by (simp add: toLowerCase_def lower_char_def methods_def createRoutes_def
        example_document_def)

text \<open>
  C6. For an OpenAPI 3 document with no server entry, \<open>convertFromOpenAPIV3\<close> does not
  keep the default prefix of the factory: whenever it returns, which is whenever
  \<open>createRoutes\<close> does, it has stored the value of the chain
  \<open>server && server[0] && ...\<close>, which is \<open>undefined\<close>, whatever the default is. The
  Swagger conversion does keep the default prefix when the document has no base path.
\<close>

theorem openapi_prefix_without_server:
  "map_sum id endpointPrefix (convertFromOpenAPIV3 cs (parsedAPI\<lparr>servers := None\<rparr>)) =
     map_sum id (\<lambda>rs. None) (createRoutes cs parsedAPI OPENAPI_V3) \<and>
   map_sum id endpointPrefix (convertFromOpenAPIV3 cs (parsedAPI\<lparr>servers := Some []\<rparr>)) =
     map_sum id (\<lambda>rs. None) (createRoutes cs parsedAPI OPENAPI_V3) \<and>
   map_sum id endpointPrefix (convertFromSwagger cs (parsedAPI\<lparr>basePath := None\<rparr>)) =
     map_sum id (\<lambda>rs. endpointPrefix (buildEnvironment cs)) (createRoutes cs parsedAPI SWAGGER) \<and>
   map_sum id endpointPrefix
     (convertFromOpenAPIV3 example_collaborators (example_document [])) = Inr None \<and>
   endpointPrefix (buildEnvironment example_collaborators) = Some []"
proof (intro conjI)
  have same: "createRoutes cs (parsedAPI\<lparr>servers := s\<rparr>) v = createRoutes cs parsedAPI v"
    for s v
    by (rule createRoutes_paths) simp
  show "map_sum id endpointPrefix (convertFromOpenAPIV3 cs (parsedAPI\<lparr>servers := None\<rparr>)) =
     map_sum id (\<lambda>rs. None) (createRoutes cs parsedAPI OPENAPI_V3)"
    using convertFromOpenAPIV3_no_server [of "parsedAPI\<lparr>servers := None\<rparr>" cs]
    by (simp add: same)
  show "map_sum id endpointPrefix (convertFromOpenAPIV3 cs (parsedAPI\<lparr>servers := Some []\<rparr>)) =
     map_sum id (\<lambda>rs. None) (createRoutes cs parsedAPI OPENAPI_V3)"
    using convertFromOpenAPIV3_no_server [of "parsedAPI\<lparr>servers := Some []\<rparr>" cs]
    by (simp add: same)
  have "createRoutes cs (parsedAPI\<lparr>basePath := None\<rparr>) SWAGGER =
        createRoutes cs parsedAPI SWAGGER"
    by (rule createRoutes_paths) simp
  then show "map_sum id endpointPrefix (convertFromSwagger cs (parsedAPI\<lparr>basePath := None\<rparr>)) =
     map_sum id (\<lambda>rs. endpointPrefix (buildEnvironment cs)) (createRoutes cs parsedAPI SWAGGER)"
    by (simp add: convertFromSwagger_eq sum.map_comp comp_def id_def)
  have "createRoutes example_collaborators (example_document []) OPENAPI_V3 = Inr []"
    by (simp add: createRoutes_def example_document_def)
  then show "map_sum id endpointPrefix
     (convertFromOpenAPIV3 example_collaborators (example_document [])) = Inr None"
    using convertFromOpenAPIV3_no_server [of "example_document []" example_collaborators]
    by (simp add: example_document_def)
  show "endpointPrefix (buildEnvironment example_collaborators) = Some []"
    by (simp add: example_collaborators_def)
qed

text \<open>
  C7, amended. The operation that the exported document holds at a path key and a
  method is the operation of the last route with that path key and method. The
  operation of a route carries no \<open>parameters\<close> array when the endpoint
  has no match of \<open>:name\<close>; otherwise it carries one entry for each match, in the order
  of the matches, a name that occurs twice giving two entries. Each entry is
  \<open>{name, in: "path", schema: {type: "string"}, required: true}\<close>, the name being the
  match without its colon, a non-empty run of word characters.
\<close>

theorem export_path_parameters:
  "operationAt (exportPaths cs env) pathKey m =
     map_option (exportOperation cs env)
       (find (\<lambda>r. exportEndpoint (endpoint r) = pathKey \<and> http_method r = m)
          (rev (routes env))) \<and>
   parameters (exportOperation cs env r) =
     (if pathParamaters (endpoint r) = [] then None
      else Some (map (\<lambda>parameter. \<lparr>name = drop 1 parameter, param_in = ''path'',
                                     schema_type = ''string'', required = True\<rparr>)
                   (pathParamaters (endpoint r)))) \<and>
   (\<forall>m\<in>set (pathParamaters (endpoint r)).
      \<exists>n. m = CHR '':'' # n \<and> n \<noteq> [] \<and> (\<forall>c\<in>set n. word_char c))"
  using pathParamaters_shape [of _ "endpoint r"]
  by (simp add: exportOperation_def exportParameters_map exportPaths_operationAt)

theorem export_path_parameters_witness:
  "parameters (exportOperation example_collaborators (buildEnvironment example_collaborators)
                 (example_route ''users/:id/orders/:orderId'')) =
     Some [\<lparr>name = ''id'', param_in = ''path'', schema_type = ''string'', required = True\<rparr>,
           \<lparr>name = ''orderId'', param_in = ''path'', schema_type = ''string'',
            required = True\<rparr>]"
proof -
  show ?thesis
    using export_path_parameters
      [THEN conjunct2, THEN conjunct1, of example_collaborators
          "buildEnvironment example_collaborators"
          "example_route ''users/:id/orders/:orderId''"]
    by (simp add: example_route_def word_char_def)
qed

text \<open>
  The claim as stated fails on an endpoint that names a parameter twice: the array has
  two entries named \<open>id\<close>.
\<close>

theorem export_path_parameters_counterexample:
  "parameters (exportOperation example_collaborators (buildEnvironment example_collaborators)
                 (example_route ''a/:id/b/:id'')) =
     Some [\<lparr>name = ''id'', param_in = ''path'', schema_type = ''string'', required = True\<rparr>,
           \<lparr>name = ''id'', param_in = ''path'', schema_type = ''string'', required = True\<rparr>]"
  by (simp add: exportOperation_def exportParameters_map example_route_def word_char_def)

text \<open>
  C8. The first header that \<open>buildResponseHeaders\<close> returns is \<open>Content-Type\<close>. Its
  value is \<open>application/json\<close> when the list of content types is absent, empty or
  contains \<open>application/json\<close>, and the first entry of the list otherwise. After it
  come the declared headers, each with an empty value. The list
  \<open>[application/xml, application/json]\<close> gives \<open>application/json\<close> and the list
  \<open>[application/xml]\<close> gives \<open>application/xml\<close>.
\<close>

theorem buildResponseHeaders_content_type:
  "buildResponseHeaders contentTypes responseHeaders =
     \<lparr>key = ''Content-Type'',
      val = (case contentTypes of
               None \<Rightarrow> ''application/json''
             | Some cts \<Rightarrow>
                 if cts = [] \<or> ''application/json'' \<in> set cts then ''application/json''
                 else hd cts)\<rparr> #
     (case responseHeaders of
        None \<Rightarrow> []
      | Some hs \<Rightarrow> map (\<lambda>h. \<lparr>key = fst h, val = []\<rparr>) hs) \<and>
   hd (buildResponseHeaders (Some [''application/xml'', ''application/json'']) responseHeaders) =
     \<lparr>key = ''Content-Type'', val = ''application/json''\<rparr> \<and>
   hd (buildResponseHeaders (Some [''application/xml'']) responseHeaders) =
     \<lparr>key = ''Content-Type'', val = ''application/xml''\<rparr>"
  by (simp add: buildResponseHeaders_def buildHeader_def comp_def Let_def
           split: option.splits list.splits)

text \<open>
  C9, amended. The operation exported for a route holds the reduction of the responses
  of the route, which holds under a status code the response exported for the last
  response of the route with that code; a response that a later one with the same code
  overwrites is emitted nowhere. The \<open>headers\<close> object of an exported response is the
  reduction of the headers of the environment followed by those of the response. Its
  keys are the keys of those headers that differ from \<open>content-type\<close> when the case is
  ignored and from \<open>__proto__\<close>, each once; under a key it holds
  \<open>{schema: {type: "string"}, example: header.value}\<close> for the last header with that key,
  so that a header of the response replaces a header of the environment with the same
  key. No key of the object equals \<open>content-type\<close> when the case is ignored. When the
  keys of the emitted headers are distinct and none is an array index, the entries come
  in the order of the headers.
\<close>

theorem export_header_projection:
  "operationAt (paths (openAPIEnvironment cs env)) pathKey m =
     map_option (exportOperation cs env)
       (find (\<lambda>r. exportEndpoint (endpoint r) = pathKey \<and> http_method r = m)
          (rev (routes env))) \<and>
   operationObject.responses (exportOperation cs env r) =
     Some (exportResponses cs env (route.responses r)) \<and>
   (k \<noteq> ''__proto__'' \<longrightarrow>
      map_of (exportResponses cs env rs) k =
        map_option (exportResponse cs env)
          (find (\<lambda>response. toString cs (Finite (statusCode response)) = k) (rev rs))) \<and>
   distinct (map fst (exportResponses cs env rs)) \<and>
   responseObject.headers (exportResponse cs env routeResponse) =
     Some (exportHeaders (environment.headers env @ routeResponse.headers routeResponse)) \<and>
   map_of (exportHeaders hs) k =
     map_option (\<lambda>h. \<lparr>headerObject.schema_type = ''string'', example = val h\<rparr>)
       (find (\<lambda>h. toLowerCase (key h) \<noteq> ''content-type'' \<and> key h \<noteq> ''__proto__'' \<and>
                   key h = k)
          (rev hs)) \<and>
   fst ` set (exportHeaders hs) =
     key ` {h \<in> set hs. toLowerCase (key h) \<noteq> ''content-type'' \<and> key h \<noteq> ''__proto__''} \<and>
   distinct (map fst (exportHeaders hs)) \<and>
   (\<forall>(name, obj) \<in> set (exportHeaders hs). toLowerCase name \<noteq> ''content-type'') \<and>
   (distinct
      (map key
         (filter (\<lambda>h. toLowerCase (key h) \<noteq> ''content-type'' \<and> key h \<noteq> ''__proto__'') hs)) \<and>
    (\<forall>h\<in>set hs. array_index (key h) = None) \<longrightarrow>
    exportHeaders hs =
      map (\<lambda>h. (key h, \<lparr>headerObject.schema_type = ''string'', example = val h\<rparr>))
        (filter (\<lambda>h. toLowerCase (key h) \<noteq> ''content-type'' \<and> key h \<noteq> ''__proto__'') hs))"
proof -
  have exported: "exportedHeader = (\<lambda>h. toLowerCase (key h) \<noteq> ''content-type'' \<and>
                                     key h \<noteq> ''__proto__'')"
    by (rule ext) (simp add: exportedHeader_def)
  have entry: "headerEntry =
                 (\<lambda>h. (key h, \<lparr>headerObject.schema_type = ''string'', example = val h\<rparr>))"
    by (rule ext) (simp add: headerEntry_def)
  have at: "operationAt (paths (openAPIEnvironment cs env)) pathKey m =
     map_option (exportOperation cs env)
       (find (\<lambda>r. exportEndpoint (endpoint r) = pathKey \<and> http_method r = m)
          (rev (routes env)))"
    by (simp add: openAPIEnvironment_def exportPaths_operationAt)
  have responses: "operationObject.responses (exportOperation cs env r) =
     Some (exportResponses cs env (route.responses r))"
    by (simp add: exportOperation_def)
  have under: "map_of (exportResponses cs env rs) k =
        map_option (exportResponse cs env)
          (find (\<lambda>response. toString cs (Finite (statusCode response)) = k) (rev rs))"
    if "k \<noteq> ''__proto__''"
    using that by (rule exportResponses_map_of)
  have once: "distinct (map fst (exportResponses cs env rs))"
    by (rule exportResponses_distinct)
  have headers: "responseObject.headers (exportResponse cs env routeResponse) =
     Some (exportHeaders (environment.headers env @ routeResponse.headers routeResponse))"
    by (simp add: exportResponse_def Let_def)
  have last: "map_of (exportHeaders hs) k =
     map_option (\<lambda>h. \<lparr>headerObject.schema_type = ''string'', example = val h\<rparr>)
       (find (\<lambda>h. toLowerCase (key h) \<noteq> ''content-type'' \<and> key h \<noteq> ''__proto__'' \<and>
                   key h = k)
          (rev hs))"
    using exportHeaders_last [of hs k]
    by (simp add: exported entry conj_assoc)
  have keys: "fst ` set (exportHeaders hs) =
     key ` {h \<in> set hs. toLowerCase (key h) \<noteq> ''content-type'' \<and> key h \<noteq> ''__proto__''}"
    using exportHeaders_keys [of hs] by (simp add: exported)
  have each: "distinct (map fst (exportHeaders hs))"
    by (rule exportHeaders_distinct)
  have none: "\<forall>(name, obj) \<in> set (exportHeaders hs). toLowerCase name \<noteq> ''content-type''"
    using exportHeaders_entries [of _ _ hs]
    by (fastforce simp: exportedHeader_def headerEntry_def)
  have ordered: "exportHeaders hs =
      map (\<lambda>h. (key h, \<lparr>headerObject.schema_type = ''string'', example = val h\<rparr>))
        (filter (\<lambda>h. toLowerCase (key h) \<noteq> ''content-type'' \<and> key h \<noteq> ''__proto__'') hs)"
    if "distinct
      (map key
         (filter (\<lambda>h. toLowerCase (key h) \<noteq> ''content-type'' \<and> key h \<noteq> ''__proto__'') hs)) \<and>
    (\<forall>h\<in>set hs. array_index (key h) = None)"
    using that fold_headers_fresh [of "[]" hs]
    by (simp add: exportHeaders_def exported entry)
  show ?thesis
    using at responses under once headers last keys each none ordered
    by (intro conjI impI) blast+
qed

theorem export_header_projection_witness:
  "exportHeaders
     [\<lparr>key = ''Content-Type'', val = ''application/json''\<rparr>, \<lparr>key = ''X-A'', val = ''1''\<rparr>,
      \<lparr>key = ''X-B'', val = ''2''\<rparr>] =
     [(''X-A'', \<lparr>headerObject.schema_type = ''string'', example = ''1''\<rparr>),
      (''X-B'', \<lparr>headerObject.schema_type = ''string'', example = ''2''\<rparr>)] \<and>
   map_of
     (exportResponses example_collaborators (buildEnvironment example_collaborators)
        [(buildRouteResponse example_collaborators) \<lparr>statusCode := 404\<rparr>,
         buildRouteResponse example_collaborators])
     ''200'' =
     Some (exportResponse example_collaborators (buildEnvironment example_collaborators)
             (buildRouteResponse example_collaborators))"
proof
  let ?hs = "[\<lparr>key = ''Content-Type'', val = ''application/json''\<rparr>,
              \<lparr>key = ''X-A'', val = ''1''\<rparr>, \<lparr>key = ''X-B'', val = ''2''\<rparr>]"
  let ?rs = "[(buildRouteResponse example_collaborators) \<lparr>statusCode := 404\<rparr>,
              buildRouteResponse example_collaborators]"
  note facts =
    export_header_projection
      [of example_collaborators "buildEnvironment example_collaborators" "[]" "[]"
          "example_route []" "''200''" ?rs "buildRouteResponse example_collaborators" ?hs]
  have lower: "toLowerCase ''Content-Type'' = ''content-type''"
    "toLowerCase ''X-A'' = ''x-a''" "toLowerCase ''X-B'' = ''x-b''"
    by (simp_all add: toLowerCase_def lower_char_def)
  have index: "array_index ''Content-Type'' = None" "array_index ''X-A'' = None"
    "array_index ''X-B'' = None"
    by (simp_all add: array_index_def digit_char_def)
  have premise:
    "distinct
      (map key
         (filter (\<lambda>h. toLowerCase (key h) \<noteq> ''content-type'' \<and> key h \<noteq> ''__proto__'') ?hs)) \<and>
    (\<forall>h\<in>set ?hs. array_index (key h) = None)"
    by (simp add: lower index)
  have "exportHeaders ?hs =
      map (\<lambda>h. (key h, \<lparr>headerObject.schema_type = ''string'', example = val h\<rparr>))
        (filter (\<lambda>h. toLowerCase (key h) \<noteq> ''content-type'' \<and> key h \<noteq> ''__proto__'') ?hs)"
    by (rule facts [THEN conjunct2, THEN conjunct2, THEN conjunct2, THEN conjunct2,
          THEN conjunct2, THEN conjunct2, THEN conjunct2, THEN conjunct2, THEN conjunct2,
          THEN mp, OF premise])
  then show "exportHeaders ?hs =
     [(''X-A'', \<lparr>headerObject.schema_type = ''string'', example = ''1''\<rparr>),
      (''X-B'', \<lparr>headerObject.schema_type = ''string'', example = ''2''\<rparr>)]"
    by (simp add: lower)
  have key: "''200'' \<noteq> ''__proto__''"
    by simp
  have numerals: "toString example_collaborators (Finite 404) = ''404''"
    "toString example_collaborators (Finite 200) = ''200''"
    by (simp_all add: toString_def decimal.simps)
  have "map_of (exportResponses example_collaborators (buildEnvironment example_collaborators)
                  ?rs) ''200'' =
        map_option (exportResponse example_collaborators (buildEnvironment example_collaborators))
          (find (\<lambda>response. toString example_collaborators (Finite (statusCode response)) =
                              ''200'')
             (rev ?rs))"
    by (rule facts [THEN conjunct2, THEN conjunct2, THEN conjunct1, THEN mp, OF key])
  moreover have "statusCode (buildRouteResponse example_collaborators) = 200"
    by (simp add: example_collaborators_def)
  ultimately show "map_of
     (exportResponses example_collaborators (buildEnvironment example_collaborators) ?rs)
     ''200'' =
     Some (exportResponse example_collaborators (buildEnvironment example_collaborators)
             (buildRouteResponse example_collaborators))"
    by (simp add: numerals)
qed

text \<open>
  The claim as stated fails on a header of the response with the key of a header of the
  environment: the exported \<open>headers\<close> object holds the key once, with the value of the
  response, and the header of the environment is not emitted with its own value.
\<close>

theorem export_header_projection_counterexample:
  "map_option operationObject.responses
     (operationAt
        (paths
           (openAPIEnvironment example_collaborators
              ((buildEnvironment example_collaborators)
                 \<lparr>environment.headers := [\<lparr>key = ''X-A'', val = ''env''\<rparr>],
                  routes :=
                    [(example_route ''users'')
                       \<lparr>route.responses :=
                          [(buildRouteResponse example_collaborators)
                             \<lparr>routeResponse.headers :=
                                [\<lparr>key = ''Content-Type'', val = ''application/json''\<rparr>,
                                 \<lparr>key = ''X-A'', val = ''resp''\<rparr>]\<rparr>]\<rparr>]\<rparr>)))
        ''/users'' ''get'') =
     Some (Some [(''200'',
                  \<lparr>responseObject.description = Some [], content = Some [],
                   responseObject.headers =
                     Some [(''X-A'',
                            \<lparr>headerObject.schema_type = ''string'', example = ''resp''\<rparr>)]\<rparr>)])"
proof -
  let ?response =
    "(buildRouteResponse example_collaborators)
       \<lparr>routeResponse.headers :=
          [\<lparr>key = ''Content-Type'', val = ''application/json''\<rparr>,
           \<lparr>key = ''X-A'', val = ''resp''\<rparr>]\<rparr>"
  let ?route = "(example_route ''users'') \<lparr>route.responses := [?response]\<rparr>"
  let ?env =
    "(buildEnvironment example_collaborators)
       \<lparr>environment.headers := [\<lparr>key = ''X-A'', val = ''env''\<rparr>], routes := [?route]\<rparr>"
  have lower: "toLowerCase ''Content-Type'' = ''content-type''"
    "toLowerCase ''X-A'' = ''x-a''"
    by (simp_all add: toLowerCase_def lower_char_def)
  have headers:
    "exportHeaders
       [\<lparr>key = ''X-A'', val = ''env''\<rparr>, \<lparr>key = ''Content-Type'', val = ''application/json''\<rparr>,
        \<lparr>key = ''X-A'', val = ''resp''\<rparr>] =
     [(''X-A'', \<lparr>headerObject.schema_type = ''string'', example = ''resp''\<rparr>)]"
    by (simp add: exportHeaders_def headersReducer_def lower object_set_def array_index_def
          digit_char_def)
  have response:
    "exportResponse example_collaborators ?env ?response =
     \<lparr>responseObject.description = Some [], content = Some [],
      responseObject.headers =
        Some [(''X-A'', \<lparr>headerObject.schema_type = ''string'', example = ''resp''\<rparr>)]\<rparr>"
    unfolding exportResponse_def
    by (simp add: Let_def example_collaborators_def
          headers [unfolded example_collaborators_def])
  have numeral: "toString example_collaborators (Finite 200) = ''200''"
    by (simp add: toString_def decimal.simps)
  have code: "statusCode ?response = 200"
    by (simp add: example_collaborators_def)
  have responses:
    "exportResponses example_collaborators ?env [?response] =
     [(''200'',
       \<lparr>responseObject.description = Some [], content = Some [],
        responseObject.headers =
          Some [(''X-A'', \<lparr>headerObject.schema_type = ''string'', example = ''resp''\<rparr>)]\<rparr>)]"
    unfolding exportResponses_def fold_simps responsesReducer_def response code numeral
    by (simp add: object_set_def array_index_def digit_char_def digit_value_def)
  have matches: "pathParamaters ''users'' = []"
    by (simp add: word_char_def)
  have "operationAt (exportPaths example_collaborators ?env) ''/users'' ''get'' =
        Some (exportOperation example_collaborators ?env ?route)"
    by (simp add: exportPaths_operationAt exportEndpoint_def matches example_route_def)
  moreover have "operationObject.responses (exportOperation example_collaborators ?env ?route) =
        Some (exportResponses example_collaborators ?env [?response])"
    by (simp add: exportOperation_def)
  ultimately show ?thesis
    by (simp add: openAPIEnvironment_def responses)
qed

text \<open>
  C10, amended. Whenever \<open>convertFromSwagger\<close> returns, which is whenever
  \<open>createRoutes\<close> does, the port of the environment is the value of
  \<open>parsedAPI.host && parseInt(parsedAPI.host.split(':')[1], 10) || newEnvironment.port\<close>.
  That is the default port of the factory for an absent host and for a host without a
  colon. For a host with a colon it is what \<open>parseInt\<close> reads from the text between the
  first colon and the second one, or the end: the default port when that is \<open>NaN\<close> or
  0, and the number read otherwise. When that text is a non-empty run of digits, the
  number read is the double nearest to the integer the digits denote, which is that
  integer when it is below \<open>2^53\<close>. The host \<open>api.example.com:8443\<close> gives the port
  8443, the host \<open>[::1]:8080\<close> keeps the default port, and the segment
  \<open>9007199254740993\<close> gives the port 9007199254740992.
\<close>

theorem swagger_port_extraction:
  "map_sum id port (convertFromSwagger cs parsedAPI) =
     map_sum id (\<lambda>rs. swaggerPort (host parsedAPI) (port (buildEnvironment cs)))
       (createRoutes cs parsedAPI SWAGGER) \<and>
   swaggerPort None defaultPort = defaultPort \<and>
   (CHR '':'' \<notin> set h \<longrightarrow> swaggerPort (Some h) defaultPort = defaultPort) \<and>
   (CHR '':'' \<notin> set hostname \<longrightarrow>
      swaggerPort (Some (hostname @ CHR '':'' # rest)) defaultPort =
        (if parseInt (takeWhile (\<lambda>c. c \<noteq> CHR '':'') rest) = NaN \<or>
            parseInt (takeWhile (\<lambda>c. c \<noteq> CHR '':'') rest) = Finite 0
         then defaultPort
         else parseInt (takeWhile (\<lambda>c. c \<noteq> CHR '':'') rest))) \<and>
   (CHR '':'' \<notin> set hostname \<and> segment \<noteq> [] \<and> (\<forall>c\<in>set segment. digit_char c) \<and>
    (after = [] \<or> hd after = CHR '':'') \<longrightarrow>
      swaggerPort (Some (hostname @ CHR '':'' # segment @ after)) defaultPort =
        (if digits_value 0 segment = 0 then defaultPort
         else Number (digits_value 0 segment))) \<and>
   (\<bar>i\<bar> < 2 ^ 53 \<longrightarrow> Number i = Finite i) \<and>
   swaggerPort (Some ''api.example.com:8443'') defaultPort = Finite 8443 \<and>
   swaggerPort (Some ''[::1]:8080'') defaultPort = defaultPort \<and>
   swaggerPort (Some ''localhost:9007199254740993'') defaultPort = Finite 9007199254740992"
proof (intro conjI impI)
  show "map_sum id port (convertFromSwagger cs parsedAPI) =
     map_sum id (\<lambda>rs. swaggerPort (host parsedAPI) (port (buildEnvironment cs)))
       (createRoutes cs parsedAPI SWAGGER)"
    by (simp add: convertFromSwagger_eq sum.map_comp comp_def id_def)
  show "swaggerPort None defaultPort = defaultPort"
    by (simp add: swaggerPort_def)
  show "swaggerPort (Some h) defaultPort = defaultPort" if "CHR '':'' \<notin> set h"
    using that by (rule swaggerPort_no_colon)
  show "swaggerPort (Some (hostname @ CHR '':'' # rest)) defaultPort =
        (if parseInt (takeWhile (\<lambda>c. c \<noteq> CHR '':'') rest) = NaN \<or>
            parseInt (takeWhile (\<lambda>c. c \<noteq> CHR '':'') rest) = Finite 0
         then defaultPort
         else parseInt (takeWhile (\<lambda>c. c \<noteq> CHR '':'') rest))"
    if "CHR '':'' \<notin> set hostname"
    using that by (rule swaggerPort_colon)
  show "swaggerPort (Some (hostname @ CHR '':'' # segment @ after)) defaultPort =
        (if digits_value 0 segment = 0 then defaultPort
         else Number (digits_value 0 segment))"
    if "CHR '':'' \<notin> set hostname \<and> segment \<noteq> [] \<and> (\<forall>c\<in>set segment. digit_char c) \<and>
        (after = [] \<or> hd after = CHR '':'')"
    using that swaggerPort_segment by blast
  show "Number i = Finite i" if "\<bar>i\<bar> < 2 ^ 53"
    using that by (rule Number_small)
  have a: "CHR '':'' \<notin> set ''api.example.com''"
    by simp
  have "parseInt ''8443'' = Finite 8443"
    by (simp add: parseInt_def white_space_def digit_char_def digit_value_def Number_small)
  then show "swaggerPort (Some ''api.example.com:8443'') defaultPort = Finite 8443"
    using swaggerPort_colon [OF a, of "''8443''" defaultPort] by simp
  have b: "CHR '':'' \<notin> set ''[''"
    by simp
  have "parseInt [] = NaN"
    by (simp add: parseInt_def)
  then show "swaggerPort (Some ''[::1]:8080'') defaultPort = defaultPort"
    using swaggerPort_colon [OF b, of "'':1]:8080''" defaultPort] by simp
  have c: "CHR '':'' \<notin> set ''localhost''"
    by simp
  have length: "bit_length 9007199254740993 = 54"
    by (simp add: bit_length.simps)
  have "Number 9007199254740993 = Finite 9007199254740992"
    by (simp add: Number_def round_to_double_def length Let_def)
  then have "parseInt ''9007199254740993'' = Finite 9007199254740992"
    by (simp add: parseInt_def white_space_def digit_char_def digit_value_def)
  then show "swaggerPort (Some ''localhost:9007199254740993'') defaultPort =
               Finite 9007199254740992"
    using swaggerPort_colon [OF c, of "''9007199254740993''" defaultPort] by simp
qed

theorem swagger_port_extraction_witness:
  "swaggerPort (Some ''localhost:8080'') (Finite 3000) = Finite 8080 \<and>
   swaggerPort (Some ''localhost'') (Finite 3000) = Finite 3000 \<and>
   swaggerPort (Some ''localhost::8080'') (Finite 3000) = Finite 3000"
proof (intro conjI)
  note facts =
    swagger_port_extraction
      [of example_collaborators "example_document []" "Finite 3000" "''localhost''"
          "''localhost''" "'':8080''" "''8080''" "[]" 8080]
  have a: "CHR '':'' \<notin> set ''localhost'' \<and> ''8080'' \<noteq> [] \<and>
           (\<forall>c\<in>set ''8080''. digit_char c) \<and> ([] = [] \<or> hd [] = CHR '':'')"
    by (simp add: digit_char_def)
  have b: "CHR '':'' \<notin> set ''localhost''"
    by simp
  have small: "\<bar>8080::int\<bar> < 2 ^ 53"
    by simp
  have v: "digits_value 0 ''8080'' = 8080"
    by (simp add: digit_value_def)
  have "swaggerPort (Some (''localhost'' @ CHR '':'' # ''8080'' @ [])) (Finite 3000) =
          (if digits_value 0 ''8080'' = 0 then Finite 3000
           else Number (digits_value 0 ''8080''))"
    by (rule facts [THEN conjunct2, THEN conjunct2, THEN conjunct2, THEN conjunct2,
          THEN conjunct1, THEN mp, OF a])
  moreover have "Number 8080 = Finite 8080"
    by (rule facts [THEN conjunct2, THEN conjunct2, THEN conjunct2, THEN conjunct2,
          THEN conjunct2, THEN conjunct1, THEN mp, OF small])
  ultimately show "swaggerPort (Some ''localhost:8080'') (Finite 3000) = Finite 8080"
    unfolding v by simp
  show "swaggerPort (Some ''localhost'') (Finite 3000) = Finite 3000"
    by (rule facts [THEN conjunct2, THEN conjunct2, THEN conjunct1, THEN mp, OF b])
  have "swaggerPort (Some (''localhost'' @ CHR '':'' # '':8080'')) (Finite 3000) =
        (if parseInt (takeWhile (\<lambda>c. c \<noteq> CHR '':'') '':8080'') = NaN \<or>
            parseInt (takeWhile (\<lambda>c. c \<noteq> CHR '':'') '':8080'') = Finite 0
         then Finite 3000
         else parseInt (takeWhile (\<lambda>c. c \<noteq> CHR '':'') '':8080''))"
    by (rule facts [THEN conjunct2, THEN conjunct2, THEN conjunct2, THEN conjunct1,
          THEN mp, OF b])
  moreover have "parseInt [] = NaN"
    by (simp add: parseInt_def)
  ultimately show "swaggerPort (Some ''localhost::8080'') (Finite 3000) = Finite 3000"
    by simp
qed

text \<open>
  The claim as stated fails on a port segment that reads as 0: \<open>0\<close> is falsy, so the
  host \<open>localhost:0\<close> keeps the default port 3000.
\<close>

theorem swagger_port_extraction_counterexample:
  "map_sum id port
     (convertFromSwagger example_collaborators
        ((example_document [])\<lparr>swagger := Some ''2.0'', host := Some ''localhost:0''\<rparr>)) =
     Inr (Finite 3000)"
proof -
  have "parseInt ''0'' = Finite 0"
    by (simp add: parseInt_def white_space_def digit_char_def digit_value_def Number_small)
  then have "swaggerPort (Some ''localhost:0'') (Finite 3000) = Finite 3000"
    using swaggerPort_colon [of "''localhost''" "''0''" "Finite 3000"] by simp
  moreover have "createRoutes example_collaborators
       ((example_document [])\<lparr>swagger := Some ''2.0'', host := Some ''localhost:0''\<rparr>)
       SWAGGER = Inr []"
    by (simp add: createRoutes_def example_document_def)
  ultimately show ?thesis
    by (simp add: convertFromSwagger_eq example_collaborators_def)
qed

end
